theory Spec2Isabelle
  imports Complex_Main
begin

section \<open>Python values used by the retrieval pipeline\<close>

text \<open>
  Strings are lists of 8-bit characters, read as the code points below 256. The
  whitespace of \<^verbatim>\<open>str.strip\<close>, \<^verbatim>\<open>str.split\<close> and \<^verbatim>\<open>str.isspace\<close> in that range is
  tab to carriage return, the four separators 28 to 31, the space, NEL (133) and the
  no-break space (160).
\<close>

definition is_space :: "char \<Rightarrow> bool" where
  "is_space c =
     (let n = (of_char c :: nat)
      in (9 \<le> n \<and> n \<le> 13) \<or> (28 \<le> n \<and> n \<le> 32) \<or> n = 133 \<or> n = 160)"

text \<open>\<^verbatim>\<open>s.rstrip()\<close>: a character is dropped when it is whitespace and nothing is kept after it.\<close>

fun py_rstrip :: "string \<Rightarrow> string" where
  "py_rstrip [] = []"
| "py_rstrip (c # cs) =
     (let r = py_rstrip cs in if r = [] \<and> is_space c then [] else c # r)"

definition py_strip :: "string \<Rightarrow> string" where
  "py_strip s = py_rstrip (dropWhile is_space s)"

text \<open>\<^verbatim>\<open>str.lower\<close> and \<^verbatim>\<open>str.upper\<close> on the code points below 256. The multiplication and
  division signs 215 and 247 have no case. The upper-case form of the sharp s (223) is the
  two letters SS. The upper-case forms of the micro sign (181) and of the y with diaeresis
  (255) are code points above 255, which a character of this model cannot hold: the two
  keep their code point here (upper case is used for the roles in a prompt only).\<close>

definition lower_char :: "char \<Rightarrow> char" where
  "lower_char c =
     (let n = (of_char c :: nat)
      in if (65 \<le> n \<and> n \<le> 90) \<or> (192 \<le> n \<and> n \<le> 222 \<and> n \<noteq> 215)
         then char_of (n + 32) else c)"

definition upper_char :: "char \<Rightarrow> char" where
  "upper_char c =
     (let n = (of_char c :: nat)
      in if (97 \<le> n \<and> n \<le> 122) \<or> (224 \<le> n \<and> n \<le> 254 \<and> n \<noteq> 247)
         then char_of (n - 32) else c)"

definition py_lower :: "string \<Rightarrow> string" where
  "py_lower s = map lower_char s"

definition py_upper :: "string \<Rightarrow> string" where
  "py_upper s = concat (map (\<lambda>c. if (of_char c :: nat) = 223 then ''SS'' else [upper_char c]) s)"

text \<open>\<^verbatim>\<open>s.split()\<close> with no separator: the maximal runs of non-whitespace characters.
  The first argument is the token being read.\<close>

fun split_scan :: "string \<Rightarrow> string \<Rightarrow> string list" where
  "split_scan tok [] = (if tok = [] then [] else [tok])"
| "split_scan tok (c # cs) =
     (if is_space c then (if tok = [] then split_scan [] cs else tok # split_scan [] cs)
      else split_scan (tok @ [c]) cs)"

definition py_split :: "string \<Rightarrow> string list" where
  "py_split s = split_scan [] s"

text \<open>\<^verbatim>\<open>sep.join(parts)\<close>.\<close>

fun py_join :: "string \<Rightarrow> string list \<Rightarrow> string" where
  "py_join sep [] = []"
| "py_join sep [p] = p"
| "py_join sep (p # q # ps) = p @ sep @ py_join sep (q # ps)"

text \<open>The decimal text of a natural number, as an f-string formats a loop index.\<close>

definition digit_char :: "nat \<Rightarrow> char" where
  "digit_char d = char_of (48 + d)"

fun str_of_nat :: "nat \<Rightarrow> string" where
  "str_of_nat n = (if n < 10 then [digit_char n] else str_of_nat (n div 10) @ [digit_char (n mod 10)])"

text \<open>Truthiness of an \<^verbatim>\<open>Optional[str]\<close>: neither \<^verbatim>\<open>None\<close> nor the empty string.\<close>

fun truthy :: "string option \<Rightarrow> bool" where
  "truthy None = False"
| "truthy (Some s) = (s \<noteq> [])"

text \<open>\<^verbatim>\<open>range(start, stop, step)\<close>: a zero step raises \<^verbatim>\<open>ValueError\<close>, a positive step
  counts up while below \<open>stop\<close>, a negative step counts down while above it.\<close>

datatype exn =
    HTTPException nat string
  | ValueError string
  | IndexError
  | AttributeError
  | ExternalError string

function range_up :: "int \<Rightarrow> int \<Rightarrow> int \<Rightarrow> int list" where
  "range_up i stop step =
     (if 0 < step \<and> i < stop then i # range_up (i + step) stop step else [])"
  by pat_completeness auto
termination
  by (relation "measure (\<lambda>(i, stop, step). nat (stop - i))") auto

function range_down :: "int \<Rightarrow> int \<Rightarrow> int \<Rightarrow> int list" where
  "range_down i stop step =
     (if step < 0 \<and> stop < i then i # range_down (i + step) stop step else [])"
  by pat_completeness auto
termination
  by (relation "measure (\<lambda>(i, stop, step). nat (i - stop))") auto

definition py_range :: "int \<Rightarrow> int \<Rightarrow> int \<Rightarrow> exn + int list" where
  "py_range start stop step =
     (if step = 0 then Inl (ValueError ''range() arg 3 must not be zero'')
      else if 0 < step then Inr (range_up start stop step)
      else Inr (range_down start stop step))"

text \<open>\<^verbatim>\<open>xs[i:j]\<close>: a negative bound counts from the end, and both bounds are clamped to
  the list.\<close>

definition slice_bound :: "int \<Rightarrow> int \<Rightarrow> int" where
  "slice_bound n i = (if i < 0 then max 0 (n + i) else min n i)"

definition py_slice :: "'a list \<Rightarrow> int \<Rightarrow> int \<Rightarrow> 'a list" where
  "py_slice xs i j =
     (let n = int (length xs); a = slice_bound n i; b = slice_bound n j
      in take (nat (b - a)) (drop (nat a) xs))"

section \<open>The external collaborators\<close>

text \<open>
  The embedding endpoint, the vector store, the language model, the text splitter, the
  HTTP client, the HTML extractors and the headless browser are outside the repository.
  Each is a field of the environment: a call either fails with a message (\<open>Inl\<close>, the
  exception the library raises) or returns its value. The configuration read by
  \<^verbatim>\<open>config.py\<close> and the sources of randomness are fields too.
\<close>

type_synonym failure = string
type_synonym vector = "real list"
type_synonym dict = "(string \<times> string) list"

record upsert_record =
  rec_id :: string
  rec_values :: vector
  rec_metadata :: dict

datatype metadata_field = MetadataAbsent | MetadataNull | Metadata dict

record query_match =
  metadata :: metadata_field

record query_result =
  matches :: "query_match list option"

record world =
  API_KEY :: "string option"
  GROQ_API_KEYS :: "string list"
  EMBEDDING_API_BATCH_SIZE :: int
  random_sample :: "string list \<Rightarrow> string list"
  random_choice :: "string list \<Rightarrow> string"
  uuid4_hex :: "nat \<Rightarrow> string"
  post_embeddings :: "string list \<Rightarrow> failure + vector list option"
  first_failure :: nat
  list_indexes_fails :: "string list \<Rightarrow> failure option"
  delete_index_fails :: "string list \<Rightarrow> string \<Rightarrow> failure option"
  create_index_fails :: "string list \<Rightarrow> string \<Rightarrow> failure option"
  index_upsert :: "string \<Rightarrow> upsert_record list \<Rightarrow> failure + unit"
  index_query :: "string \<Rightarrow> vector \<Rightarrow> nat \<Rightarrow> failure + query_result"
  split_text :: "string \<Rightarrow> failure + string list"
  llm_ainvoke :: "string \<Rightarrow> string \<Rightarrow> string \<Rightarrow> failure + string option"
  requests_get :: "string \<Rightarrow> nat \<Rightarrow> failure + string"
  playwright_content :: "string \<Rightarrow> nat \<Rightarrow> failure + string"
  trafilatura_extract :: "string \<Rightarrow> failure + string option"
  bs_get_text :: "string \<Rightarrow> failure + string"

section \<open>The remote embedding client (rag.py)\<close>

text \<open>\<^verbatim>\<open>_call_embedding_api\<close>: a failed request or status raises; a response without the
  \<^verbatim>\<open>embeddings\<close> field (\<open>Inr None\<close>) raises \<^verbatim>\<open>ValueError\<close>.\<close>

definition call_embedding_api :: "world \<Rightarrow> string list \<Rightarrow> exn + vector list" where
  "call_embedding_api w texts =
     (case post_embeddings w texts of
        Inl e \<Rightarrow> Inl (ExternalError e)
      | Inr None \<Rightarrow> Inl (ValueError ''Invalid embedding response'')
      | Inr (Some embs) \<Rightarrow> Inr embs)"

text \<open>\<^verbatim>\<open>asyncio.gather\<close>: the results in the order of the tasks when every task
  returns; otherwise the exception of the task that raises first in time. Which of the
  failing tasks that is, is given by the environment: the number \<open>k\<close>, counted among the
  failing tasks and taken modulo their number.\<close>

fun failures :: "(exn + 'a) list \<Rightarrow> exn list" where
  "failures [] = []"
| "failures (Inl e # ts) = e # failures ts"
| "failures (Inr r # ts) = failures ts"

fun successes :: "(exn + 'a) list \<Rightarrow> 'a list" where
  "successes [] = []"
| "successes (Inl e # ts) = successes ts"
| "successes (Inr r # ts) = r # successes ts"

definition gather :: "nat \<Rightarrow> (exn + 'a) list \<Rightarrow> exn + 'a list" where
  "gather k ts =
     (let errs = failures ts
      in if errs = [] then Inr (successes ts) else Inl (errs ! (k mod length errs)))"

text \<open>A list comprehension whose element expression may raise: the values in order, or
  the exception of the leftmost element that raises.\<close>

fun comprehension :: "(exn + 'a) list \<Rightarrow> exn + 'a list" where
  "comprehension [] = Inr []"
| "comprehension (t # ts) =
     (case t of
        Inl e \<Rightarrow> Inl e
      | Inr r \<Rightarrow> (case comprehension ts of Inl e \<Rightarrow> Inl e | Inr rs \<Rightarrow> Inr (r # rs)))"

text \<open>\<^verbatim>\<open>aembed_documents\<close>, with the client's \<^verbatim>\<open>batch_size\<close> as an argument.\<close>

definition aembed_documents :: "world \<Rightarrow> int \<Rightarrow> string list \<Rightarrow> exn + vector list" where
  "aembed_documents w batch_size texts =
     (case py_range 0 (int (length texts)) batch_size of
        Inl e \<Rightarrow> Inl e
      | Inr starts \<Rightarrow>
          (case gather (first_failure w)
                  (map (\<lambda>i. call_embedding_api w (py_slice texts i (i + batch_size))) starts) of
             Inl e \<Rightarrow> Inl e
           | Inr results \<Rightarrow> Inr (concat results)))"

definition aembed_query :: "world \<Rightarrow> int \<Rightarrow> string \<Rightarrow> exn + vector" where
  "aembed_query w batch_size text =
     (case aembed_documents w batch_size [text] of
        Inl e \<Rightarrow> Inl e
      | Inr [] \<Rightarrow> Inl IndexError
      | Inr (v # _) \<Rightarrow> Inr v)"

section \<open>The index store adapter (rag.py)\<close>

text \<open>
  The state of the vector store is the list of index names in the order in which
  \<^verbatim>\<open>list_indexes().names()\<close> returns them. Whether a call of the store fails is given by
  the environment, from the state at the call.
\<close>

type_synonym store = "string list"

definition list_indexes :: "world \<Rightarrow> store \<Rightarrow> exn + string list" where
  "list_indexes w s =
     (case list_indexes_fails w s of Some e \<Rightarrow> Inl (ExternalError e) | None \<Rightarrow> Inr s)"

definition delete_index :: "world \<Rightarrow> store \<Rightarrow> string \<Rightarrow> exn + store" where
  "delete_index w s name =
     (case delete_index_fails w s name of
        Some e \<Rightarrow> Inl (ExternalError e)
      | None \<Rightarrow> Inr (removeAll name s))"

definition create_index :: "world \<Rightarrow> store \<Rightarrow> string \<Rightarrow> exn + store" where
  "create_index w s name =
     (case create_index_fails w s name of
        Some e \<Rightarrow> Inl (ExternalError e)
      | None \<Rightarrow> Inr (s @ [name]))"

text \<open>\<^verbatim>\<open>create_index_if_not_exists_async\<close>: the result of the call and the store after it.
  A failed deletion is caught and printed; a failed listing or creation propagates. The
  first name \<^verbatim>\<open>names[0]\<close> is read only when the listing holds five names or more.\<close>

definition create_index_if_not_exists_async ::
  "world \<Rightarrow> store \<Rightarrow> string \<Rightarrow> (exn + unit) \<times> store" where
  "create_index_if_not_exists_async w s index_name =
     (case list_indexes w s of
        Inl e \<Rightarrow> (Inl e, s)
      | Inr names \<Rightarrow>
          if index_name \<notin> set names then
            (let s1 = (if 5 \<le> length names then
                         (case delete_index w s (hd names) of Inl e \<Rightarrow> s | Inr s' \<Rightarrow> s')
                       else s)
             in case create_index w s1 index_name of
                  Inl e \<Rightarrow> (Inl e, s1)
                | Inr s2 \<Rightarrow> (Inr (), s2))
          else (Inr (), s))"

text \<open>\<^verbatim>\<open>_chunk_text_sync\<close>: the splitter of the library, with chunk size 1500 and overlap
  200, is the environment's \<open>split_text\<close>.\<close>

definition chunk_text_sync :: "world \<Rightarrow> string \<Rightarrow> exn + string list" where
  "chunk_text_sync w text =
     (case split_text w text of Inl e \<Rightarrow> Inl (ExternalError e) | Inr docs \<Rightarrow> Inr docs)"

text \<open>\<^verbatim>\<open>process_text_and_upsert\<close>: chunk, embed, build one record per pair of chunk and
  vector, upsert. The record of position \<open>i\<close> takes the first eight digits of a fresh
  uuid (the request's uuid number \<open>i + 1\<close>; number 0 names the index). The vectors an
  index holds are kept by the store and are not part of the modelled state.\<close>

definition process_text_and_upsert :: "world \<Rightarrow> string \<Rightarrow> string \<Rightarrow> exn + unit" where
  "process_text_and_upsert w index_name full_text =
     (case chunk_text_sync w full_text of
        Inl e \<Rightarrow> Inl e
      | Inr chunks \<Rightarrow>
          (case aembed_documents w (EMBEDDING_API_BATCH_SIZE w) chunks of
             Inl e \<Rightarrow> Inl e
           | Inr vectors \<Rightarrow>
               (let to_upsert =
                      map (\<lambda>(i, chunk, vec).
                             \<lparr>rec_id = ''doc_'' @ str_of_nat i @ ''_'' @ take 8 (uuid4_hex w (Suc i)),
                              rec_values = vec,
                              rec_metadata = [(''text'', chunk)]\<rparr>)
                          (enumerate 0 (zip chunks vectors))
                in case index_upsert w index_name to_upsert of
                     Inl e \<Rightarrow> Inl (ExternalError e)
                   | Inr u \<Rightarrow> Inr ())))"

section \<open>The language-model utilities with key failover (rag.py)\<close>

text \<open>
  An invocation of the model either raises (\<open>Inl\<close>) or returns a response whose content
  is absent (\<open>None\<close>) or a string. Every function returns, beside its value, the
  invocations it made: the key and the prompt of each, in order.
\<close>

type_synonym llm_call = "string \<times> string"

text \<open>The loop over the shuffled keys, the same in the three functions: the first
  response with non-empty content ends it with that content stripped; an exception or an
  empty response moves on to the next key. \<open>None\<close> is the loop running out of keys.\<close>

fun groq_failover :: "world \<Rightarrow> string \<Rightarrow> string list \<Rightarrow> string option \<times> llm_call list" where
  "groq_failover w prompt [] = (None, [])"
| "groq_failover w prompt (key # keys) =
     (case llm_ainvoke w ''llama-3.1-8b-instant'' key prompt of
        Inl e \<Rightarrow>
          (let (r, calls) = groq_failover w prompt keys in (r, (key, prompt) # calls))
      | Inr resp \<Rightarrow>
          if truthy resp then (Some (py_strip (the resp)), [(key, prompt)])
          else (let (r, calls) = groq_failover w prompt keys in (r, (key, prompt) # calls)))"

definition summary_prompt :: "string \<Rightarrow> string" where
  "summary_prompt combined_text =
     ''You are an experienced equity research analyst. '' @
     ''Given the combined extracted content below from multiple web pages, produce a concise, '' @
     ''professional, user-friendly analyst summary . '' @
     ''Just include everything dont miss anything basically give an overview of the content which was given.'' @
     ''Focus on the most important facts, company profile, key metrics or indices mentioned, '' @
     ''and any notable points. Use short sentences and clear language.\<newline>\<newline>'' @
     ''CONTENT:\<newline>'' @ combined_text @ ''\<newline>\<newline>SUMMARY (about 10 lines):''"

definition generate_summary_with_groq :: "world \<Rightarrow> string \<Rightarrow> string \<times> llm_call list" where
  "generate_summary_with_groq w combined_text =
     (let shuffled_keys = random_sample w (GROQ_API_KEYS w);
          (r, calls) = groq_failover w (summary_prompt combined_text) shuffled_keys
      in (case r of
            Some content \<Rightarrow> content
          | None \<Rightarrow> ''Summary could not be generated due to an external service error.'',
          calls))"

definition optimize_prompt :: "string \<Rightarrow> string" where
  "optimize_prompt text =
     ''You are a data processing expert for RAG systems. '' @
     ''Your task is to take the following raw scraped text and rewrite it into a clean, structured, and comprehensive format. '' @
     ''Focus on preserving all factual data, especially financial metrics, numbers, dates, and key entities. '' @
     ''Fix any formatting issues where labels and values are separated by newlines (e.g., change 'Market Cap\<newline>1.34T' to 'Market Cap: 1.34T'). '' @
     ''Remove irrelevant navigation links, ads, or boilerplate footer text. '' @
     ''Ensure the output is dense with information and optimized for semantic search retrieval.\<newline>\<newline>'' @
     ''RAW TEXT:\<newline>'' @ text @ ''\<newline>\<newline>OPTIMIZED TEXT:''"

definition optimize_text_for_rag :: "world \<Rightarrow> string \<Rightarrow> string \<times> llm_call list" where
  "optimize_text_for_rag w text =
     (let shuffled_keys = random_sample w (GROQ_API_KEYS w);
          (r, calls) = groq_failover w (optimize_prompt text) shuffled_keys
      in (case r of Some content \<Rightarrow> content | None \<Rightarrow> text, calls))"

record ChatMessage =
  msg_role :: string
  msg_text :: string

text \<open>The history block of \<^verbatim>\<open>answer_with_context_groq\<close>: the last ten messages, one line
  each, the role in upper case.\<close>

definition history_block_of :: "ChatMessage list option \<Rightarrow> string" where
  "history_block_of history =
     (case history of
        None \<Rightarrow> []
      | Some msgs \<Rightarrow>
          if msgs = [] then []
          else ''CONVERSATION HISTORY:\<newline>'' @
               py_join ''\<newline>''
                 (map (\<lambda>msg. py_upper (msg_role msg) @ '': '' @ msg_text msg)
                      (drop (length msgs - 10) msgs)) @
               ''\<newline>\<newline>'')"

definition answer_prompt :: "string \<Rightarrow> string \<Rightarrow> ChatMessage list option \<Rightarrow> string" where
  "answer_prompt question context history =
     ''You are a helpful assistant. Answer only based on the CONTEXT below. '' @
     ''If the answer is not present in the context, say: 'I could not find the answer in the provided documents.' '' @
     ''Use the conversation history to understand follow-up questions. '' @
     ''Be concise and formal.\<newline>\<newline>'' @
     history_block_of history @
     ''CONTEXT:\<newline>'' @ context @ ''\<newline>\<newline>QUESTION: '' @ question @ ''\<newline>ANSWER:''"

definition answer_with_context_groq ::
  "world \<Rightarrow> string \<Rightarrow> string \<Rightarrow> ChatMessage list option \<Rightarrow> string \<times> llm_call list" where
  "answer_with_context_groq w question context history =
     (let shuffled_keys = random_sample w (GROQ_API_KEYS w);
          (r, calls) = groq_failover w (answer_prompt question context history) shuffled_keys
      in (case r of
            Some content \<Rightarrow> content
          | None \<Rightarrow> ''The answer could not be generated due to an external service error.'',
          calls))"

section \<open>The scraper (scraper.py)\<close>

text \<open>\<^verbatim>\<open>extract_static\<close> with its default timeout of 12 seconds: every exception inside
  is caught and gives \<^verbatim>\<open>None\<close>.\<close>

definition extract_static :: "world \<Rightarrow> string \<Rightarrow> string option" where
  "extract_static w url =
     (case requests_get w url 12 of
        Inl e \<Rightarrow> None
      | Inr html \<Rightarrow>
          (case trafilatura_extract w html of
             Inl e \<Rightarrow> None
           | Inr text \<Rightarrow>
               if truthy text \<and> 200 < length (py_strip (the text)) then text
               else (case bs_get_text w html of
                       Inl e \<Rightarrow> None
                     | Inr raw \<Rightarrow>
                         if raw \<noteq> [] \<and> 200 < length (py_strip raw) then Some raw
                         else None)))"

text \<open>\<^verbatim>\<open>extract_js\<close> with its default timeout of 30 seconds, on the rendered page.\<close>

definition extract_js :: "world \<Rightarrow> string \<Rightarrow> string option" where
  "extract_js w url =
     (case playwright_content w url 30 of
        Inl e \<Rightarrow> None
      | Inr html \<Rightarrow>
          (case trafilatura_extract w html of
             Inl e \<Rightarrow> None
           | Inr text \<Rightarrow>
               if truthy text \<and> 200 < length (py_strip (the text)) then text
               else (case bs_get_text w html of
                       Inl e \<Rightarrow> None
                     | Inr raw \<Rightarrow>
                         if raw \<noteq> [] \<and> 200 < length (py_strip raw) then Some raw
                         else None)))"

text \<open>The loop of \<^verbatim>\<open>fetch_and_combine\<close>, with \<open>parts\<close> as it stands before the URL.\<close>

fun fetch_parts :: "world \<Rightarrow> string list \<Rightarrow> string list \<Rightarrow> string list" where
  "fetch_parts w parts [] = parts"
| "fetch_parts w parts (url # urls) =
     (let text = extract_static w url;
          text = (if \<not> truthy text then extract_js w url else text)
      in fetch_parts w
           (parts @
            [if \<not> truthy text then ''[Could not extract content from: '' @ url @ '']''
             else ''--- SOURCE: '' @ url @ '' ---\<newline>'' @ the text @ ''\<newline>''])
           urls)"

definition fetch_and_combine :: "world \<Rightarrow> string list \<Rightarrow> string" where
  "fetch_and_combine w urls = py_strip (py_join ''\<newline>\<newline>'' (fetch_parts w [] urls))"

section \<open>The endpoints (rag.py)\<close>

record AnalyzeRequest =
  urls :: "string list"

record AnalyzeResponse =
  success :: bool
  response_index_name :: "string option"
  summary :: "string option"

record AskRequest =
  index_name :: string
  question :: string
  history :: "ChatMessage list option"

record AskResponse =
  answer :: string

text \<open>The check of the bearer token: it rejects when a key is configured and the header
  is not that key.\<close>

definition auth_rejected :: "world \<Rightarrow> string option \<Rightarrow> bool" where
  "auth_rejected w authorization =
     (truthy (API_KEY w) \<and> authorization \<noteq> Some (''Bearer '' @ the (API_KEY w)))"

definition dict_get :: "dict \<Rightarrow> string \<Rightarrow> string \<Rightarrow> string" where
  "dict_get d k dflt = (case map_of d k of None \<Rightarrow> dflt | Some v \<Rightarrow> v)"

text \<open>The expression \<^verbatim>\<open>m.get("metadata", {}).get("text", "")\<close> for one match: a match
  without metadata gives the empty dictionary and so the empty text; metadata that is
  null has no \<^verbatim>\<open>get\<close> and raises.\<close>

fun match_text :: "query_match \<Rightarrow> exn + string" where
  "match_text m =
     (case metadata m of
        MetadataAbsent \<Rightarrow> Inr (dict_get [] ''text'' [])
      | MetadataNull \<Rightarrow> Inl AttributeError
      | Metadata d \<Rightarrow> Inr (dict_get d ''text'' []))"

text \<open>\<^verbatim>\<open>_search_index_sync\<close>: the texts of the matches joined by a rule; any exception, of
  the query or of the reading of a match, gives the empty string. A response without
  matches (\<open>None\<close>) counts as no match.\<close>

definition search_index_sync :: "world \<Rightarrow> string \<Rightarrow> vector \<Rightarrow> nat \<Rightarrow> string" where
  "search_index_sync w name query_vector top_k =
     (case index_query w name query_vector top_k of
        Inl e \<Rightarrow> []
      | Inr res \<Rightarrow>
          (let ms = (case matches res of None \<Rightarrow> [] | Some ms \<Rightarrow> ms)
           in case comprehension (map match_text ms) of
                Inl e \<Rightarrow> []
              | Inr texts \<Rightarrow> py_join ''\<newline>\<newline>---\<newline>\<newline>'' texts))"

text \<open>\<^verbatim>\<open>analyze\<close>: the result, the store after the request and the model invocations.\<close>

definition analyze ::
  "world \<Rightarrow> store \<Rightarrow> AnalyzeRequest \<Rightarrow> string option \<Rightarrow>
     (exn + AnalyzeResponse) \<times> store \<times> llm_call list" where
  "analyze w s request authorization =
     (if auth_rejected w authorization then (Inl (HTTPException 401 ''Invalid API Key.''), s, [])
      else if urls request = [] then (Inl (HTTPException 400 ''No URLs provided.''), s, [])
      else
        (let combined_text = fetch_and_combine w (urls request)
         in if combined_text = [] \<or> length (py_strip combined_text) = 0
            then (Inl (HTTPException 500 ''Failed to extract content from provided URLs.''), s, [])
            else
              (let name = ''webindex-'' @ take 8 (uuid4_hex w 0)
               in case create_index_if_not_exists_async w s name of
                    (Inl e, s1) \<Rightarrow> (Inl e, s1, [])
                  | (Inr u, s1) \<Rightarrow>
                      (let (optimized_text, calls1) = optimize_text_for_rag w combined_text
                       in case process_text_and_upsert w name optimized_text of
                            Inl e \<Rightarrow> (Inl e, s1, calls1)
                          | Inr u \<Rightarrow>
                              (let (summ, calls2) = generate_summary_with_groq w optimized_text
                               in (Inr \<lparr>success = True, response_index_name = Some name,
                                        summary = Some summ\<rparr>,
                                   s1, calls1 @ calls2))))))"

text \<open>\<^verbatim>\<open>ask\<close>: the result and the model invocations.\<close>

definition ask ::
  "world \<Rightarrow> AskRequest \<Rightarrow> string option \<Rightarrow> (exn + AskResponse) \<times> llm_call list" where
  "ask w req authorization =
     (if auth_rejected w authorization then (Inl (HTTPException 401 ''Invalid API Key.''), [])
      else if index_name req = [] then (Inl (HTTPException 400 ''index_name required''), [])
      else
        (case aembed_query w (EMBEDDING_API_BATCH_SIZE w) (question req) of
           Inl e \<Rightarrow> (Inl e, [])
         | Inr query_vec \<Rightarrow>
             (let context = search_index_sync w (index_name req) query_vec 5
              in if py_strip context = []
                 then (Inr \<lparr>answer = ''This information is not available in the indexed documents.''\<rparr>, [])
                 else
                   (let (a, calls) = answer_with_context_groq w (question req) context (history req)
                    in (Inr \<lparr>answer = a\<rparr>, calls)))))"

section \<open>The intent classifiers (excel_generator.py, visuals.py)\<close>

text \<open>\<^verbatim>\<open>_format_history\<close>, the same function in both modules, on messages that are
  dictionaries of strings.\<close>

definition format_history :: "dict list option \<Rightarrow> string" where
  "format_history hist =
     (case hist of
        None \<Rightarrow> []
      | Some msgs \<Rightarrow>
          if msgs = [] then []
          else ''CONVERSATION HISTORY:\<newline>'' @
               py_join ''\<newline>''
                 (map (\<lambda>msg. py_upper (dict_get msg ''role'' []) @ '': '' @ dict_get msg ''text'' [])
                      (drop (length msgs - 10) msgs)) @
               ''\<newline>\<newline>'')"

definition excel_classify_prompt :: "string \<Rightarrow> dict list option \<Rightarrow> string" where
  "excel_classify_prompt query hist =
     ''You are a smart intent classifier. Based on the conversation history and the latest user message, '' @
     ''decide if the user wants to GENERATE or MODIFY an Excel/spreadsheet/table, OR if they are just asking a general question or chatting.\<newline>\<newline>'' @
     ''Reply with EXACTLY one word:\<newline>'' @
     ''- 'excel' if they want to create, modify, restructure, or download a spreadsheet/table/Excel\<newline>'' @
     ''- 'chat' if they are asking a question, greeting, or anything else\<newline>\<newline>'' @
     format_history hist @
     ''USER MESSAGE: '' @ query @ ''\<newline>\<newline>'' @
     ''INTENT:''"

definition viz_classify_prompt :: "string \<Rightarrow> dict list option \<Rightarrow> string" where
  "viz_classify_prompt query hist =
     ''You are a smart intent classifier. Based on the conversation history and the latest user message, '' @
     ''decide if the user wants to GENERATE or MODIFY a chart/visualization/graph, OR if they are just asking a general question or chatting.\<newline>\<newline>'' @
     ''Reply with EXACTLY one word:\<newline>'' @
     ''- 'viz' if they want to create, modify, or regenerate a chart/graph/visualization\<newline>'' @
     ''- 'chat' if they are asking a question, greeting, or anything else\<newline>\<newline>'' @
     format_history hist @
     ''USER MESSAGE: '' @ query @ ''\<newline>\<newline>'' @
     ''INTENT:''"

text \<open>The expression \<^verbatim>\<open>classify_resp.content.strip().lower().split()[0]\<close>: it raises when
  the content is absent or holds no token.\<close>

definition first_word :: "string option \<Rightarrow> exn + string" where
  "first_word content =
     (case content of
        None \<Rightarrow> Inl AttributeError
      | Some c \<Rightarrow>
          (case py_split (py_lower (py_strip c)) of
             [] \<Rightarrow> Inl IndexError
           | tok # toks \<Rightarrow> Inr tok))"

text \<open>Step 0 of \<^verbatim>\<open>create_excel\<close>: the value of \<^verbatim>\<open>intent\<close> after the \<^verbatim>\<open>try\<close> block, or the
  error raised before it when no key is configured.\<close>

definition create_excel_intent :: "world \<Rightarrow> string \<Rightarrow> dict list option \<Rightarrow> exn + string" where
  "create_excel_intent w query hist =
     (if GROQ_API_KEYS w = [] then Inl (HTTPException 500 ''GROQ API keys not configured.'')
      else
        (let classify_prompt = excel_classify_prompt query hist;
             key = random_choice w (GROQ_API_KEYS w)
         in case llm_ainvoke w ''llama-3.3-70b-versatile'' key classify_prompt of
              Inl e \<Rightarrow> Inr ''excel''
            | Inr content \<Rightarrow>
                (case first_word content of Inl e \<Rightarrow> Inr ''excel'' | Inr tok \<Rightarrow> Inr tok)))"

text \<open>Step 0 of \<^verbatim>\<open>create_visuals\<close>, likewise.\<close>

definition create_visuals_intent :: "world \<Rightarrow> string \<Rightarrow> dict list option \<Rightarrow> exn + string" where
  "create_visuals_intent w query hist =
     (if GROQ_API_KEYS w = [] then Inl (HTTPException 500 ''GROQ API keys not configured.'')
      else
        (let classify_prompt = viz_classify_prompt query hist;
             key = random_choice w (GROQ_API_KEYS w)
         in case llm_ainvoke w ''llama-3.3-70b-versatile'' key classify_prompt of
              Inl e \<Rightarrow> Inr ''viz''
            | Inr content \<Rightarrow>
                (case first_word content of Inl e \<Rightarrow> Inr ''viz'' | Inr tok \<Rightarrow> Inr tok)))"

section \<open>The words of the specification\<close>

text \<open>The part that one URL contributes, by the outcome of its extraction: the text of
  the static path when that path yields one, else the text of the rendered path when that
  one does, else the placeholder naming the URL. The code puts an extracted text under a
  header line that names the URL and ends it with a line break.\<close>

definition part_of_url :: "world \<Rightarrow> string \<Rightarrow> string" where
  "part_of_url w url =
     (case extract_static w url of
        Some text \<Rightarrow> ''--- SOURCE: '' @ url @ '' ---\<newline>'' @ text @ ''\<newline>''
      | None \<Rightarrow>
          (case extract_js w url of
             Some text \<Rightarrow> ''--- SOURCE: '' @ url @ '' ---\<newline>'' @ text @ ''\<newline>''
           | None \<Rightarrow> ''[Could not extract content from: '' @ url @ '']''))"

text \<open>The first whitespace-delimited token of a response, lower-cased.\<close>

definition first_token_lowered :: "string \<Rightarrow> string" where
  "first_token_lowered c = map lower_char (takeWhile (\<lambda>ch. \<not> is_space ch) (dropWhile is_space c))"

text \<open>An attempt with one key fails: the call raises or yields no content.\<close>

fun attempt_fails :: "failure + string option \<Rightarrow> bool" where
  "attempt_fails (Inl e) = True"
| "attempt_fails (Inr resp) = (\<not> truthy resp)"

section \<open>Concrete environments\<close>

text \<open>An environment in which the store and the embedding endpoint answer, the
  endpoint with one vector per text, and every page and every model call fails.\<close>

definition example_world :: world where
  "example_world =
     \<lparr>API_KEY = None,
      GROQ_API_KEYS = [''gsk_1'', ''gsk_2''],
      EMBEDDING_API_BATCH_SIZE = 32,
      random_sample = rev,
      random_choice = hd,
      uuid4_hex = (\<lambda>n. ''0123456789abcdef0123456789abcdef''),
      post_embeddings = (\<lambda>texts. Inr (Some (map (\<lambda>t. [real (length t)]) texts))),
      first_failure = 0,
      list_indexes_fails = (\<lambda>s. None),
      delete_index_fails = (\<lambda>s name. None),
      create_index_fails = (\<lambda>s name. None),
      index_upsert = (\<lambda>name records. Inr ()),
      index_query = (\<lambda>name v k. Inr \<lparr>matches = Some []\<rparr>),
      split_text = (\<lambda>t. Inr [t]),
      llm_ainvoke = (\<lambda>model key prompt. Inl ''rate limit''),
      requests_get = (\<lambda>url timeout. Inl ''timeout''),
      playwright_content = (\<lambda>url timeout. Inl ''timeout''),
      trafilatura_extract = (\<lambda>html. Inr None),
      bs_get_text = (\<lambda>html. Inr [])\<rparr>"

text \<open>The same environment with a store that refuses every deletion.\<close>

definition failing_delete_world :: world where
  "failing_delete_world = example_world\<lparr>delete_index_fails := (\<lambda>s name. Some ''503'')\<rparr>"

text \<open>The same environment with a store that refuses every creation.\<close>

definition failing_create_world :: world where
  "failing_create_world = example_world\<lparr>create_index_fails := (\<lambda>s name. Some ''quota exceeded'')\<rparr>"

definition five_indexes :: store where
  "five_indexes = [''webindex-a'', ''webindex-b'', ''webindex-c'', ''webindex-d'', ''webindex-e'']"

definition embedding_of :: "string \<Rightarrow> vector \<Rightarrow> bool" where
  "embedding_of t v = (v = [real (length t)])"

text \<open>An environment with two pages: the heuristic extracts a long text from the first
  and nothing from the second, whose plain text is short.\<close>

definition long_text :: string where
  "long_text = replicate 201 (CHR ''x'')"

definition page_world :: world where
  "page_world = example_world
     \<lparr>requests_get := (\<lambda>url timeout.
          if url = ''https://example.com/a'' then Inr ''<p>long</p>''
          else if url = ''https://example.com/b'' then Inr ''<p>short</p>''
          else Inl ''404''),
      trafilatura_extract := (\<lambda>html. if html = ''<p>long</p>'' then Inr (Some long_text) else Inr None),
      bs_get_text := (\<lambda>html. Inr ''short'')\<rparr>"

text \<open>An environment whose model answers the classifier with a capitalised word.\<close>

definition answering_world :: world where
  "answering_world = example_world\<lparr>llm_ainvoke := (\<lambda>model key prompt. Inr (Some '' Chat please''))\<rparr>"

text \<open>An environment whose splitter fails.\<close>

definition failing_split_world :: world where
  "failing_split_world = page_world\<lparr>split_text := (\<lambda>t. Inl ''splitter error'')\<rparr>"

text \<open>An environment whose store fails every query.\<close>

definition failing_query_world :: world where
  "failing_query_world = example_world\<lparr>index_query := (\<lambda>name v k. Inl ''unreachable'')\<rparr>"

definition revenue_request :: AskRequest where
  "revenue_request = \<lparr>index_name = ''webindex-a'', question = ''Revenue?'', history = None\<rparr>"

definition page_b_request :: AnalyzeRequest where
  "page_b_request = \<lparr>urls = [''https://example.com/b'']\<rparr>"

section \<open>Python strings\<close>

lemma is_space_lower_char: "is_space (lower_char c) = is_space c"
  unfolding is_space_def lower_char_def Let_def
  by (auto simp: of_char_of)

lemma split_scan_tok:
  "tok \<noteq> [] \<Longrightarrow> \<exists>rest. split_scan tok s = (tok @ takeWhile (\<lambda>ch. \<not> is_space ch) s) # rest"
proof (induction s arbitrary: tok)
  case Nil
  then show ?case by simp
next
  case (Cons a s)
  show ?case
  proof (cases "is_space a")
    case True
    then show ?thesis using Cons.prems by simp
  next
    case False
    from Cons.IH [of "tok @ [a]"] obtain rest where
      "split_scan (tok @ [a]) s = ((tok @ [a]) @ takeWhile (\<lambda>ch. \<not> is_space ch) s) # rest"
      by auto
    then show ?thesis using False by simp
  qed
qed

lemma split_scan_spaces: "split_scan [] s = split_scan [] (dropWhile is_space s)"
  by (induction s) auto

lemma dropWhile_space_Cons: "dropWhile is_space s = c # cs \<Longrightarrow> \<not> is_space c"
  using hd_dropWhile [of is_space s] by auto

lemma py_split_blank: "dropWhile is_space s = [] \<Longrightarrow> py_split s = []"
proof -
  assume a: "dropWhile is_space s = []"
  have "py_split s = split_scan [] (dropWhile is_space s)"
    unfolding py_split_def by (rule split_scan_spaces)
  also have "\<dots> = split_scan [] []" by (simp only: a)
  finally show ?thesis by simp
qed

lemma py_split_first:
  assumes "dropWhile is_space s = c # cs"
  shows "\<exists>rest. py_split s = takeWhile (\<lambda>ch. \<not> is_space ch) (c # cs) # rest"
proof -
  have nc: "\<not> is_space c" using assms by (rule dropWhile_space_Cons)
  have "py_split s = split_scan [] (dropWhile is_space s)"
    unfolding py_split_def by (rule split_scan_spaces)
  also have "\<dots> = split_scan [] (c # cs)" by (simp only: assms)
  also have "\<dots> = split_scan [c] cs" using nc by simp
  finally have e: "py_split s = split_scan [c] cs" .
  from split_scan_tok [of "[c]" cs] obtain rest where
    "split_scan [c] cs = ([c] @ takeWhile (\<lambda>ch. \<not> is_space ch) cs) # rest" by auto
  then show ?thesis using e nc by simp
qed

lemma py_rstrip_takeWhile:
  "takeWhile (\<lambda>ch. \<not> is_space ch) (py_rstrip d) = takeWhile (\<lambda>ch. \<not> is_space ch) d"
  by (induction d) (auto simp: Let_def)

lemma py_strip_Nil: "py_strip [] = []"
  by (simp add: py_strip_def)

lemma py_strip_blank: "dropWhile is_space s = [] \<Longrightarrow> py_strip s = []"
  unfolding py_strip_def by (simp only: py_rstrip.simps)

lemma py_strip_Cons:
  "dropWhile is_space s = c # cs \<Longrightarrow> py_strip s = c # py_rstrip cs"
proof -
  assume a: "dropWhile is_space s = c # cs"
  then have "\<not> is_space c" by (rule dropWhile_space_Cons)
  then have "py_rstrip (c # cs) = c # py_rstrip cs" by (simp add: Let_def)
  then show ?thesis unfolding py_strip_def by (simp only: a)
qed

lemma py_strip_nonspace_head: "\<not> is_space c \<Longrightarrow> py_strip (c # cs) = c # py_rstrip cs"
  by (simp add: py_strip_def Let_def)

lemma py_rstrip_nonspace: "\<forall>c \<in> set s. \<not> is_space c \<Longrightarrow> py_rstrip s = s"
  by (induction s) (auto simp: Let_def)

lemma py_strip_nonspace: "\<forall>c \<in> set s. \<not> is_space c \<Longrightarrow> py_strip s = s"
proof -
  assume a: "\<forall>c \<in> set s. \<not> is_space c"
  then have "dropWhile is_space s = s" by (cases s) auto
  then show ?thesis using a by (simp add: py_strip_def py_rstrip_nonspace)
qed

lemma py_rstrip_last: "s \<noteq> [] \<Longrightarrow> \<not> is_space (last s) \<Longrightarrow> py_rstrip s = s"
proof (induction s)
  case Nil
  then show ?case by simp
next
  case (Cons c cs)
  show ?case
  proof (cases "cs = []")
    case True
    then show ?thesis using Cons.prems by simp
  next
    case False
    then have "py_rstrip cs = cs" using Cons by simp
    then show ?thesis using False by (simp add: Let_def)
  qed
qed

lemma py_strip_long_text: "py_strip long_text = long_text"
  by (rule py_strip_nonspace) (simp add: long_text_def is_space_def)

lemma py_join_head: "\<exists>t. py_join sep (p # ps) = p @ t"
  by (cases ps) auto

section \<open>The index store adapter\<close>

lemma ensure_index_unfold:
  "create_index_if_not_exists_async w s name =
     (case list_indexes_fails w s of
        Some e \<Rightarrow> (Inl (ExternalError e), s)
      | None \<Rightarrow>
          if name \<in> set s then (Inr (), s)
          else (case create_index_fails w
                       (if 5 \<le> length s \<and> delete_index_fails w s (hd s) = None
                        then removeAll (hd s) s else s) name of
                  Some e \<Rightarrow> (Inl (ExternalError e),
                       if 5 \<le> length s \<and> delete_index_fails w s (hd s) = None
                        then removeAll (hd s) s else s)
                | None \<Rightarrow> (Inr (),
                      (if 5 \<le> length s \<and> delete_index_fails w s (hd s) = None
                        then removeAll (hd s) s else s) @ [name])))"
  unfolding create_index_if_not_exists_async_def list_indexes_def delete_index_def
      create_index_def Let_def
  by (simp split: option.split)

lemma ensure_index_present:
  "name \<in> set s \<Longrightarrow> snd (create_index_if_not_exists_async w s name) = s"
  unfolding ensure_index_unfold by (simp split: option.split)

lemma ensure_index_returns:
  assumes "fst (create_index_if_not_exists_async w s name) = Inr ()"
  shows "(name \<in> set s \<and> snd (create_index_if_not_exists_async w s name) = s)
       \<or> (name \<notin> set s \<and> snd (create_index_if_not_exists_async w s name) =
            (if 5 \<le> length s \<and> delete_index_fails w s (hd s) = None
             then removeAll (hd s) s else s) @ [name])"
  using assms unfolding ensure_index_unfold
  by (cases "list_indexes_fails w s"; cases "name \<in> set s";
      cases "create_index_fails w (if 5 \<le> length s \<and> delete_index_fails w s (hd s) = None
                        then removeAll (hd s) s else s) name") simp_all

lemma ensure_index_no_http:
  "fst (create_index_if_not_exists_async w s name) \<noteq> Inl (HTTPException c d)"
  unfolding ensure_index_unfold by (simp split: option.split)

text \<open>The branch of the refused deletion: the exception is caught, and when the creation
  succeeds the new index is added to a store that has lost nothing.\<close>

lemma ensure_index_deletion_refused:
  assumes "name \<notin> set s" and "5 \<le> length s"
    and "list_indexes_fails w s = None" and "delete_index_fails w s (hd s) = Some e"
    and "create_index_fails w s name = None"
  shows "create_index_if_not_exists_async w s name = (Inr (), s @ [name])"
  using assms unfolding ensure_index_unfold by simp

lemma removeAll_hd_distinct: "distinct s \<Longrightarrow> s \<noteq> [] \<Longrightarrow> removeAll (hd s) s = tl s"
  by (cases s) simp_all

lemma count_list_distinct: "distinct xs \<Longrightarrow> x \<in> set xs \<Longrightarrow> count_list xs x = 1"
  by (induction xs) auto

text \<open>Claim C1, amended. For a store that holds exactly five indexes and a name that is not
  among them: when the call returns normally and the store did not refuse the deletion of
  the first-listed index, the store afterwards is the old listing without its first name,
  followed by the new name. So exactly one prior index, the first-listed, is gone, the new
  index exists, and the count is still five.\<close>

theorem ensure_index_evicts_first_listed:
  assumes "length s = 5" and "distinct s" and "name \<notin> set s"
    and "fst (create_index_if_not_exists_async w s name) = Inr ()"
    and "delete_index_fails w s (hd s) = None"
  shows "snd (create_index_if_not_exists_async w s name) = tl s @ [name]
       \<and> length (snd (create_index_if_not_exists_async w s name)) = 5
       \<and> set (snd (create_index_if_not_exists_async w s name)) = (set s - {hd s}) \<union> {name}
       \<and> hd s \<in> set s"
proof -
  from assms(1) have ne: "s \<noteq> []" by auto
  have rm: "removeAll (hd s) s = tl s" using assms(2) ne by (rule removeAll_hd_distinct)
  have res: "snd (create_index_if_not_exists_async w s name) = tl s @ [name]"
    using ensure_index_returns [OF assms(4)] assms(1,3,5) rm by simp
  have st: "set (tl s) = set s - {hd s}"
    using assms(2) ne by (cases s) auto
  have "length (tl s @ [name]) = 5" using assms(1) by simp
  moreover have "set (tl s @ [name]) = (set s - {hd s}) \<union> {name}" using st by simp
  moreover have "hd s \<in> set s" using ne by simp
  ultimately show ?thesis unfolding res by blast
qed

theorem ensure_index_evicts_first_listed_witness:
  "length five_indexes = 5 \<and> distinct five_indexes \<and> ''webindex-f'' \<notin> set five_indexes
   \<and> fst (create_index_if_not_exists_async example_world five_indexes ''webindex-f'') = Inr ()
   \<and> delete_index_fails example_world five_indexes (hd five_indexes) = None
   \<and> snd (create_index_if_not_exists_async example_world five_indexes ''webindex-f'')
       = [''webindex-b'', ''webindex-c'', ''webindex-d'', ''webindex-e'', ''webindex-f'']"
proof -
  have h1: "length five_indexes = 5" by (simp add: five_indexes_def)
  have h2: "distinct five_indexes" by (simp add: five_indexes_def)
  have h3: "''webindex-f'' \<notin> set five_indexes" by (simp add: five_indexes_def)
  have h4: "fst (create_index_if_not_exists_async example_world five_indexes ''webindex-f'') = Inr ()"
    by (simp add: create_index_if_not_exists_async_def list_indexes_def delete_index_def
        create_index_def example_world_def five_indexes_def)
  have h5: "delete_index_fails example_world five_indexes (hd five_indexes) = None"
    by (simp add: example_world_def)
  have "tl five_indexes @ [''webindex-f'']
      = [''webindex-b'', ''webindex-c'', ''webindex-d'', ''webindex-e'', ''webindex-f'']"
    by (simp add: five_indexes_def)
  with ensure_index_evicts_first_listed [OF h1 h2 h3 h4 h5] h1 h2 h3 h4 h5 show ?thesis by simp
qed

text \<open>The claim as stated, for every store state, fails where the store refuses the deletion:
  the exception is caught, the creation proceeds, the call returns normally, no prior index
  is removed and the store holds six indexes.\<close>

theorem ensure_index_failed_deletion_counterexample:
  "length five_indexes = 5 \<and> distinct five_indexes \<and> ''webindex-f'' \<notin> set five_indexes
   \<and> create_index_if_not_exists_async failing_delete_world five_indexes ''webindex-f''
       = (Inr (), five_indexes @ [''webindex-f''])
   \<and> length (snd (create_index_if_not_exists_async failing_delete_world five_indexes ''webindex-f'')) = 6"
  by (simp add: create_index_if_not_exists_async_def list_indexes_def delete_index_def
        create_index_def example_world_def failing_delete_world_def five_indexes_def)

lemma ensure_index_accepted:
  assumes "list_indexes_fails w s = None"
    and "name \<in> set s \<or>
         create_index_fails w
           (if 5 \<le> length s \<and> delete_index_fails w s (hd s) = None
            then removeAll (hd s) s else s) name = None"
  shows "fst (create_index_if_not_exists_async w s name) = Inr ()"
proof (cases "name \<in> set s")
  case True
  then show ?thesis using assms(1) unfolding ensure_index_unfold by simp
next
  case False
  then have "create_index_fails w
           (if 5 \<le> length s \<and> delete_index_fails w s (hd s) = None
            then removeAll (hd s) s else s) name = None"
    using assms(2) by simp
  then show ?thesis using assms(1) False unfolding ensure_index_unfold by simp
qed

text \<open>Claim C2, amended. When an index of the name exists, the call leaves the store as it
  is: nothing is deleted and nothing is created, whatever the store answers. When the
  store answers the listing and, for a name that is not there, accepts the creation, the
  call returns normally. After a call that returned normally, a second call with the same
  name, in any environment, changes nothing, and the store holds exactly one index of that
  name.\<close>

theorem ensure_index_idempotent:
  "(name \<in> set s \<longrightarrow> snd (create_index_if_not_exists_async w s name) = s)
   \<and> (list_indexes_fails w1 s = None
        \<and> (name \<in> set s \<or>
            create_index_fails w1
              (if 5 \<le> length s \<and> delete_index_fails w1 s (hd s) = None
               then removeAll (hd s) s else s) name = None) \<longrightarrow>
        fst (create_index_if_not_exists_async w1 s name) = Inr ())
   \<and> (distinct s \<and> fst (create_index_if_not_exists_async w1 s name) = Inr () \<longrightarrow>
        snd (create_index_if_not_exists_async w2 (snd (create_index_if_not_exists_async w1 s name)) name)
          = snd (create_index_if_not_exists_async w1 s name)
        \<and> count_list (snd (create_index_if_not_exists_async w2
              (snd (create_index_if_not_exists_async w1 s name)) name)) name = 1)"
proof -
  have first: "name \<in> set s \<longrightarrow> snd (create_index_if_not_exists_async w s name) = s"
    by (simp add: ensure_index_present)
  have accepted: "fst (create_index_if_not_exists_async w1 s name) = Inr ()"
    if "list_indexes_fails w1 s = None
        \<and> (name \<in> set s \<or>
            create_index_fails w1
              (if 5 \<le> length s \<and> delete_index_fails w1 s (hd s) = None
               then removeAll (hd s) s else s) name = None)"
    using that by (intro ensure_index_accepted) simp_all
  have second: "snd (create_index_if_not_exists_async w2 (snd (create_index_if_not_exists_async w1 s name)) name)
          = snd (create_index_if_not_exists_async w1 s name)
        \<and> count_list (snd (create_index_if_not_exists_async w2
              (snd (create_index_if_not_exists_async w1 s name)) name)) name = 1"
    if a: "distinct s \<and> fst (create_index_if_not_exists_async w1 s name) = Inr ()"
  proof -
    define s1 where "s1 = snd (create_index_if_not_exists_async w1 s name)"
    have r: "(name \<in> set s \<and> s1 = s)
         \<or> (name \<notin> set s \<and> s1 =
              (if 5 \<le> length s \<and> delete_index_fails w1 s (hd s) = None
               then removeAll (hd s) s else s) @ [name])"
      unfolding s1_def using a by (intro ensure_index_returns) simp
    have mem: "name \<in> set s1" using r by auto
    have d: "distinct s1" using r a by (auto simp: distinct_removeAll)
    have same: "snd (create_index_if_not_exists_async w2 s1 name) = s1"
      using mem by (rule ensure_index_present)
    have "count_list s1 name = 1" using d mem
      by (rule count_list_distinct)
    with same show ?thesis
      unfolding s1_def by simp
  qed
  from first accepted second show ?thesis by blast
qed

text \<open>The witness creates a name that the store does not hold yet, with the eviction of the
  first-listed index, and repeats the call against a store that would refuse a creation;
  it also repeats the call for a name that the store holds from the start.\<close>

theorem ensure_index_idempotent_witness:
  "''webindex-f'' \<notin> set five_indexes \<and> distinct five_indexes
   \<and> list_indexes_fails example_world five_indexes = None
   \<and> create_index_if_not_exists_async example_world five_indexes ''webindex-f''
       = (Inr (), [''webindex-b'', ''webindex-c'', ''webindex-d'', ''webindex-e'', ''webindex-f''])
   \<and> snd (create_index_if_not_exists_async failing_create_world
         (snd (create_index_if_not_exists_async example_world five_indexes ''webindex-f''))
         ''webindex-f'')
       = [''webindex-b'', ''webindex-c'', ''webindex-d'', ''webindex-e'', ''webindex-f'']
   \<and> count_list (snd (create_index_if_not_exists_async failing_create_world
         (snd (create_index_if_not_exists_async example_world five_indexes ''webindex-f''))
         ''webindex-f'')) ''webindex-f'' = 1
   \<and> ''webindex-a'' \<in> set five_indexes
   \<and> snd (create_index_if_not_exists_async failing_create_world five_indexes ''webindex-a'')
       = five_indexes"
proof -
  have h0: "''webindex-f'' \<notin> set five_indexes" by (simp add: five_indexes_def)
  have h1: "''webindex-a'' \<in> set five_indexes" by (simp add: five_indexes_def)
  have h2: "distinct five_indexes" by (simp add: five_indexes_def)
  have h3: "list_indexes_fails example_world five_indexes = None"
    by (simp add: example_world_def)
  have h4: "''webindex-f'' \<in> set five_indexes \<or>
            create_index_fails example_world
              (if 5 \<le> length five_indexes
                  \<and> delete_index_fails example_world five_indexes (hd five_indexes) = None
               then removeAll (hd five_indexes) five_indexes else five_indexes) ''webindex-f'' = None"
    by (simp add: example_world_def)
  have v: "create_index_if_not_exists_async example_world five_indexes ''webindex-f''
       = (Inr (), [''webindex-b'', ''webindex-c'', ''webindex-d'', ''webindex-e'', ''webindex-f''])"
    by (simp add: create_index_if_not_exists_async_def list_indexes_def delete_index_def
        create_index_def example_world_def five_indexes_def)
  from ensure_index_idempotent
         [of "''webindex-f''" five_indexes example_world example_world failing_create_world]
       h2 h3 h4
  have fresh: "fst (create_index_if_not_exists_async example_world five_indexes ''webindex-f'') = Inr ()
     \<and> snd (create_index_if_not_exists_async failing_create_world
         (snd (create_index_if_not_exists_async example_world five_indexes ''webindex-f''))
         ''webindex-f'')
       = snd (create_index_if_not_exists_async example_world five_indexes ''webindex-f'')
     \<and> count_list (snd (create_index_if_not_exists_async failing_create_world
         (snd (create_index_if_not_exists_async example_world five_indexes ''webindex-f''))
         ''webindex-f'')) ''webindex-f'' = 1"
    by blast
  from ensure_index_idempotent
         [of "''webindex-a''" five_indexes failing_create_world example_world example_world] h1
  have present: "snd (create_index_if_not_exists_async failing_create_world five_indexes ''webindex-a'')
       = five_indexes"
    by blast
  from fresh present h0 h1 h2 h3 v show ?thesis by simp
qed

text \<open>The claim as stated, for every store state, fails where the store refuses the
  creation: each of the two calls raises, the first-listed index is evicted by the first
  call, and no index of the name exists afterwards.\<close>

theorem ensure_index_refused_creation_counterexample:
  "''webindex-f'' \<notin> set five_indexes \<and> distinct five_indexes
   \<and> create_index_if_not_exists_async failing_create_world five_indexes ''webindex-f''
       = (Inl (ExternalError ''quota exceeded''),
          [''webindex-b'', ''webindex-c'', ''webindex-d'', ''webindex-e''])
   \<and> create_index_if_not_exists_async failing_create_world
         (snd (create_index_if_not_exists_async failing_create_world five_indexes ''webindex-f''))
         ''webindex-f''
       = (Inl (ExternalError ''quota exceeded''),
          [''webindex-b'', ''webindex-c'', ''webindex-d'', ''webindex-e''])
   \<and> count_list (snd (create_index_if_not_exists_async failing_create_world
         (snd (create_index_if_not_exists_async failing_create_world five_indexes ''webindex-f''))
         ''webindex-f'')) ''webindex-f'' = 0"
  by (simp add: create_index_if_not_exists_async_def list_indexes_def delete_index_def
        create_index_def example_world_def failing_create_world_def five_indexes_def)

section \<open>The embedding client\<close>

lemma failures_successes_all2:
  "\<forall>x\<in>set xs. \<exists>v. f x = Inr v \<and> P x v \<Longrightarrow>
   failures (map f xs) = [] \<and> list_all2 P xs (successes (map f xs))"
  by (induction xs) auto

lemma gather_all2:
  assumes "\<forall>x\<in>set xs. \<exists>v. f x = Inr v \<and> P x v"
  shows "\<exists>rs. gather k (map f xs) = Inr rs \<and> list_all2 P xs rs"
  using failures_successes_all2 [OF assms] by (simp add: gather_def)

lemma failures_mem: "e \<in> set (failures ts) \<Longrightarrow> Inl e \<in> set ts"
  by (induction ts rule: failures.induct) auto

lemma gather_raises_some_failure: "gather k ts = Inl e \<Longrightarrow> Inl e \<in> set ts"
proof -
  assume a: "gather k ts = Inl e"
  then have ne: "failures ts \<noteq> []" and e: "e = failures ts ! (k mod length (failures ts))"
    by (auto simp: gather_def Let_def split: if_splits)
  have "k mod length (failures ts) < length (failures ts)" using ne by simp
  then have "e \<in> set (failures ts)" unfolding e by (rule nth_mem)
  then show ?thesis by (rule failures_mem)
qed

lemma gather_no_http:
  "\<forall>t \<in> set ts. t \<noteq> Inl (HTTPException c d) \<Longrightarrow> gather k ts \<noteq> Inl (HTTPException c d)"
  using gather_raises_some_failure [of k ts "HTTPException c d"] by blast

lemma concat_all2:
  "list_all2 (list_all2 E) xss yss \<Longrightarrow> list_all2 E (concat xss) (concat yss)"
  by (induction rule: list_all2_induct) (auto intro: list_all2_appendI)

lemma py_slice_batch:
  "0 \<le> i \<Longrightarrow> 0 < b \<Longrightarrow> i < int (length xs) \<Longrightarrow> py_slice xs i (i + b) = take (nat b) (drop (nat i) xs)"
  by (auto simp: py_slice_def slice_bound_def Let_def min_def)

lemma batches_concat:
  "0 < b \<Longrightarrow> 0 \<le> i \<Longrightarrow>
   concat (map (\<lambda>j. py_slice xs j (j + b)) (range_up i (int (length xs)) b)) = drop (nat i) xs"
proof (induction i "int (length xs)" b rule: range_up.induct)
  case (1 i step)
  show ?case
  proof (cases "i < int (length xs)")
    case True
    have "take (nat step) (drop (nat i) xs) @ drop (nat (i + step)) xs = drop (nat i) xs"
      using 1(2,3) append_take_drop_id [of "nat step" "drop (nat i) xs"]
      by (simp add: nat_add_distrib add.commute)
    moreover have "concat (map (\<lambda>j. py_slice xs j (j + step)) (range_up (i + step) (int (length xs)) step))
        = drop (nat (i + step)) xs"
      using 1 True by simp
    moreover have "range_up i (int (length xs)) step = i # range_up (i + step) (int (length xs)) step"
      using 1(2) True by (subst range_up.simps) simp
    ultimately show ?thesis using 1(2,3) True
      by (simp add: py_slice_batch)
  next
    case False
    then show ?thesis using 1(3) by (subst range_up.simps) simp
  qed
qed

lemma call_embedding_api_no_http: "call_embedding_api w texts \<noteq> Inl (HTTPException c d)"
  by (simp add: call_embedding_api_def split: sum.split option.split)

lemma aembed_documents_no_http: "aembed_documents w b texts \<noteq> Inl (HTTPException c d)"
proof (cases "py_range 0 (int (length texts)) b")
  case (Inl e)
  then have "e = ValueError ''range() arg 3 must not be zero''"
    by (simp add: py_range_def split: if_splits)
  then show ?thesis using Inl by (simp add: aembed_documents_def)
next
  case (Inr starts)
  have "gather (first_failure w) (map (\<lambda>i. call_embedding_api w (py_slice texts i (i + b))) starts)
      \<noteq> Inl (HTTPException c d)"
    by (rule gather_no_http) (simp add: call_embedding_api_no_http)
  then show ?thesis using Inr
    by (cases "gather (first_failure w) (map (\<lambda>i. call_embedding_api w (py_slice texts i (i + b))) starts)")
       (simp_all add: aembed_documents_def)
qed

text \<open>Claim C3, amended. For every list of texts and every positive batch size: when the
  endpoint answers each batch that is sent with vectors that stand in the relation \<open>E\<close> to
  the texts of the batch, position by position (so with exactly one vector per text), the
  result has one vector per input text and the vector at position \<open>i\<close> is related to the
  text at position \<open>i\<close>. With \<open>E t v\<close> read as "\<open>v\<close> is the embedding of \<open>t\<close>" this is the
  input order; with the trivial relation it is the count alone.\<close>

theorem aembed_documents_in_order:
  assumes "0 < batch_size"
    and "\<forall>i \<in> set (range_up 0 (int (length texts)) batch_size).
           \<exists>vs. post_embeddings w (py_slice texts i (i + batch_size)) = Inr (Some vs)
              \<and> list_all2 E (py_slice texts i (i + batch_size)) vs"
  shows "\<exists>vs. aembed_documents w batch_size texts = Inr vs
            \<and> length vs = length texts
            \<and> (\<forall>i < length texts. E (texts ! i) (vs ! i))"
proof -
  let ?starts = "range_up 0 (int (length texts)) batch_size"
  let ?slice = "\<lambda>i. py_slice texts i (i + batch_size)"
  let ?f = "\<lambda>i. call_embedding_api w (?slice i)"
  let ?P = "\<lambda>i vs. list_all2 E (?slice i) vs"
  have h: "\<forall>i\<in>set ?starts. \<exists>vs. ?f i = Inr vs \<and> ?P i vs"
  proof
    fix i assume "i \<in> set ?starts"
    with assms(2) obtain vs where "post_embeddings w (?slice i) = Inr (Some vs)"
      and "list_all2 E (?slice i) vs" by blast
    then show "\<exists>vs. ?f i = Inr vs \<and> ?P i vs"
      by (simp add: call_embedding_api_def)
  qed
  have "\<exists>rs. gather (first_failure w) (map ?f ?starts) = Inr rs \<and> list_all2 ?P ?starts rs"
    using h by (rule gather_all2)
  then obtain rs where rs: "gather (first_failure w) (map ?f ?starts) = Inr rs"
    and all2: "list_all2 ?P ?starts rs" by blast
  have "list_all2 (list_all2 E) (map ?slice ?starts) rs"
    using all2 by (simp add: list_all2_map1)
  then have "list_all2 E (concat (map ?slice ?starts)) (concat rs)"
    by (rule concat_all2)
  moreover have "concat (map ?slice ?starts) = texts"
    using batches_concat [of batch_size 0 texts] assms(1) by simp
  ultimately have E: "list_all2 E texts (concat rs)" by simp
  have "aembed_documents w batch_size texts = Inr (concat rs)"
    using assms(1) rs by (simp add: aembed_documents_def py_range_def)
  moreover have "length (concat rs) = length texts"
    using E by (simp add: list_all2_lengthD)
  moreover have "\<forall>i < length texts. E (texts ! i) (concat rs ! i)"
    using E by (simp add: list_all2_conv_all_nth)
  ultimately show ?thesis by blast
qed

theorem aembed_documents_in_order_witness:
  "(0::int) < 2
   \<and> range_up 0 (int (length [''a'', ''bb'', ''ccc''])) 2 = [0, 2]
   \<and> post_embeddings example_world (py_slice [''a'', ''bb'', ''ccc''] 0 (0 + 2)) = Inr (Some [[1], [2]])
   \<and> post_embeddings example_world (py_slice [''a'', ''bb'', ''ccc''] 2 (2 + 2)) = Inr (Some [[3]])
   \<and> (\<exists>vs. aembed_documents example_world 2 [''a'', ''bb'', ''ccc''] = Inr vs
          \<and> length vs = length [''a'', ''bb'', ''ccc'']
          \<and> (\<forall>i < length [''a'', ''bb'', ''ccc'']. embedding_of ([''a'', ''bb'', ''ccc''] ! i) (vs ! i)))
   \<and> aembed_documents example_world 2 [''a'', ''bb'', ''ccc''] = Inr [[1], [2], [3]]"
proof -
  have h1: "(0::int) < 2" by simp
  have r: "range_up 0 (int (length [''a'', ''bb'', ''ccc''])) 2 = [0, 2]" by simp
  have p0: "post_embeddings example_world (py_slice [''a'', ''bb'', ''ccc''] 0 (0 + 2)) = Inr (Some [[1], [2]])"
    by (simp add: example_world_def py_slice_def slice_bound_def)
  have p2: "post_embeddings example_world (py_slice [''a'', ''bb'', ''ccc''] 2 (2 + 2)) = Inr (Some [[3]])"
    by (simp add: example_world_def py_slice_def slice_bound_def)
  have h2: "\<forall>i \<in> set (range_up 0 (int (length [''a'', ''bb'', ''ccc''])) 2).
         \<exists>vs. post_embeddings example_world (py_slice [''a'', ''bb'', ''ccc''] i (i + 2)) = Inr (Some vs)
            \<and> list_all2 embedding_of (py_slice [''a'', ''bb'', ''ccc''] i (i + 2)) vs"
    by (simp add: example_world_def embedding_of_def list_all2_map2 list_all2_same)
  have h3: "aembed_documents example_world 2 [''a'', ''bb'', ''ccc''] = Inr [[1], [2], [3]]"
    by (simp add: aembed_documents_def py_range_def call_embedding_api_def py_slice_def
        slice_bound_def gather_def example_world_def)
  from aembed_documents_in_order [OF h1 h2] h1 r p0 p2 h3 show ?thesis by blast
qed

text \<open>The claim as stated, for every batch size, fails at the batch sizes that are not
  positive, with an endpoint that returns one vector per text: a batch size of zero raises
  \<^verbatim>\<open>ValueError\<close> in \<^verbatim>\<open>range\<close>, and a negative one sends no batch and returns no vector for
  three texts.\<close>

theorem aembed_documents_batch_size_counterexample:
  "post_embeddings example_world [''a'', ''bb'', ''ccc''] = Inr (Some [[1], [2], [3]])
   \<and> aembed_documents example_world 0 [''a'', ''bb'', ''ccc''] = Inl (ValueError ''range() arg 3 must not be zero'')
   \<and> aembed_documents example_world (- 1) [''a'', ''bb'', ''ccc''] = Inr []"
  by (simp add: aembed_documents_def py_range_def gather_def example_world_def)

section \<open>Key failover\<close>

lemma groq_failover_exhausted:
  "\<forall>key \<in> set keys. attempt_fails (llm_ainvoke w ''llama-3.1-8b-instant'' key prompt) \<Longrightarrow>
   groq_failover w prompt keys = (None, map (\<lambda>key. (key, prompt)) keys)"
proof (induction keys)
  case Nil
  then show ?case by simp
next
  case (Cons key keys)
  then have f: "attempt_fails (llm_ainvoke w ''llama-3.1-8b-instant'' key prompt)"
    and rest: "groq_failover w prompt keys = (None, map (\<lambda>key. (key, prompt)) keys)"
    by simp_all
  show ?case
  proof (cases "llm_ainvoke w ''llama-3.1-8b-instant'' key prompt")
    case (Inl e)
    then show ?thesis using rest by simp
  next
    case (Inr resp)
    then have "\<not> truthy resp" using f by simp
    then show ?thesis using Inr rest by simp
  qed
qed

text \<open>Claim C5. When the sampled keys are configured keys and the attempt with every
  configured key fails (the call raises, or the response has no content),
  \<^verbatim>\<open>optimize_text_for_rag\<close> returns its input unchanged and \<^verbatim>\<open>answer_with_context_groq\<close>
  returns the fixed failure string, each after one attempt per sampled key. Both are
  values: the only calls that can raise are inside the \<^verbatim>\<open>try\<close> block of the loop, so the
  model has no exceptional result for them.\<close>

theorem failover_exhausted:
  assumes "set (random_sample w (GROQ_API_KEYS w)) \<subseteq> set (GROQ_API_KEYS w)"
    and "\<forall>key \<in> set (GROQ_API_KEYS w).
           attempt_fails (llm_ainvoke w ''llama-3.1-8b-instant'' key (optimize_prompt text))"
    and "\<forall>key \<in> set (GROQ_API_KEYS w).
           attempt_fails (llm_ainvoke w ''llama-3.1-8b-instant'' key (answer_prompt q ctx hist))"
  shows "optimize_text_for_rag w text
           = (text, map (\<lambda>key. (key, optimize_prompt text)) (random_sample w (GROQ_API_KEYS w)))
       \<and> answer_with_context_groq w q ctx hist
           = (''The answer could not be generated due to an external service error.'',
              map (\<lambda>key. (key, answer_prompt q ctx hist)) (random_sample w (GROQ_API_KEYS w)))"
proof -
  have "\<forall>key \<in> set (random_sample w (GROQ_API_KEYS w)).
           attempt_fails (llm_ainvoke w ''llama-3.1-8b-instant'' key (optimize_prompt text))"
    using assms(1,2) by blast
  then have o: "groq_failover w (optimize_prompt text) (random_sample w (GROQ_API_KEYS w))
      = (None, map (\<lambda>key. (key, optimize_prompt text)) (random_sample w (GROQ_API_KEYS w)))"
    by (rule groq_failover_exhausted)
  have "\<forall>key \<in> set (random_sample w (GROQ_API_KEYS w)).
           attempt_fails (llm_ainvoke w ''llama-3.1-8b-instant'' key (answer_prompt q ctx hist))"
    using assms(1,3) by blast
  then have a: "groq_failover w (answer_prompt q ctx hist) (random_sample w (GROQ_API_KEYS w))
      = (None, map (\<lambda>key. (key, answer_prompt q ctx hist)) (random_sample w (GROQ_API_KEYS w)))"
    by (rule groq_failover_exhausted)
  show ?thesis
    by (simp add: optimize_text_for_rag_def answer_with_context_groq_def o a)
qed

theorem failover_exhausted_witness:
  "GROQ_API_KEYS example_world = [''gsk_1'', ''gsk_2'']
   \<and> random_sample example_world (GROQ_API_KEYS example_world) = [''gsk_2'', ''gsk_1'']
   \<and> attempt_fails (llm_ainvoke example_world ''llama-3.1-8b-instant'' ''gsk_1''
         (optimize_prompt ''Revenue: 10. Profit: 2.''))
   \<and> attempt_fails (llm_ainvoke example_world ''llama-3.1-8b-instant'' ''gsk_2''
         (optimize_prompt ''Revenue: 10. Profit: 2.''))
   \<and> attempt_fails (llm_ainvoke example_world ''llama-3.1-8b-instant'' ''gsk_1''
         (answer_prompt ''What is the revenue?'' ''Revenue: 10.'' None))
   \<and> attempt_fails (llm_ainvoke example_world ''llama-3.1-8b-instant'' ''gsk_2''
         (answer_prompt ''What is the revenue?'' ''Revenue: 10.'' None))
   \<and> fst (optimize_text_for_rag example_world ''Revenue: 10. Profit: 2.'') = ''Revenue: 10. Profit: 2.''
   \<and> fst (answer_with_context_groq example_world ''What is the revenue?'' ''Revenue: 10.'' None)
        = ''The answer could not be generated due to an external service error.''
   \<and> map fst (snd (optimize_text_for_rag example_world ''Revenue: 10. Profit: 2.'')) = [''gsk_2'', ''gsk_1'']"
proof -
  have k0: "GROQ_API_KEYS example_world = [''gsk_1'', ''gsk_2'']"
    by (simp add: example_world_def)
  have k: "random_sample example_world (GROQ_API_KEYS example_world) = [''gsk_2'', ''gsk_1'']"
    by (simp add: example_world_def)
  have f: "attempt_fails (llm_ainvoke example_world model key prompt)" for model key prompt
    by (simp add: example_world_def)
  have h1: "set (random_sample example_world (GROQ_API_KEYS example_world)) \<subseteq> set (GROQ_API_KEYS example_world)"
    by (simp add: example_world_def)
  have h2: "\<forall>key \<in> set (GROQ_API_KEYS example_world).
         attempt_fails (llm_ainvoke example_world ''llama-3.1-8b-instant'' key (optimize_prompt ''Revenue: 10. Profit: 2.''))"
    using f by blast
  have h3: "\<forall>key \<in> set (GROQ_API_KEYS example_world).
         attempt_fails (llm_ainvoke example_world ''llama-3.1-8b-instant'' key
            (answer_prompt ''What is the revenue?'' ''Revenue: 10.'' None))"
    using f by blast
  from failover_exhausted [OF h1 h2 h3] k0 k f show ?thesis by simp
qed

section \<open>The scraper\<close>

lemma extract_static_unfold:
  assumes "requests_get w url 12 = Inr html" and "trafilatura_extract w html = Inr text"
  shows "extract_static w url =
     (if truthy text \<and> 200 < length (py_strip (the text)) then text
      else (case bs_get_text w html of
              Inl e \<Rightarrow> None
            | Inr raw \<Rightarrow> if raw \<noteq> [] \<and> 200 < length (py_strip raw) then Some raw else None))"
  using assms by (simp add: extract_static_def)

text \<open>Claim C7. When the page is fetched and the heuristic runs: the static path returns the
  heuristic's result only if its stripped length is not below 200; when the heuristic's
  result is missing or below 200, the path returns the plain text if that is longer than
  200, and \<^verbatim>\<open>None\<close> if the plain text fails or is below 200.\<close>

theorem extract_static_threshold:
  assumes "requests_get w url 12 = Inr html" and "trafilatura_extract w html = Inr text"
  shows "(extract_static w url = Some r \<and> text = Some r \<longrightarrow> 200 \<le> length (py_strip r))
       \<and> (text = None \<or> length (py_strip (the text)) < 200 \<longrightarrow>
            (bs_get_text w html = Inr raw \<and> 200 < length (py_strip raw) \<longrightarrow>
               extract_static w url = Some raw)
          \<and> (bs_get_text w html = Inl e \<or>
               (bs_get_text w html = Inr raw \<and> length (py_strip raw) < 200) \<longrightarrow>
               extract_static w url = None))"
proof -
  note u = extract_static_unfold [OF assms]
  have a: "200 \<le> length (py_strip r)" if "extract_static w url = Some r \<and> text = Some r"
  proof (cases "truthy text \<and> 200 < length (py_strip (the text))")
    case True
    then show ?thesis using that by simp
  next
    case False
    with that u have "(case bs_get_text w html of
              Inl e \<Rightarrow> None
            | Inr raw \<Rightarrow> if raw \<noteq> [] \<and> 200 < length (py_strip raw) then Some raw else None) = Some r"
      by simp
    then show ?thesis by (auto split: sum.splits if_splits)
  qed
  have low: "\<not> (truthy text \<and> 200 < length (py_strip (the text)))"
    if "text = None \<or> length (py_strip (the text)) < 200"
    using that by auto
  have b: "extract_static w url = Some raw"
    if "text = None \<or> length (py_strip (the text)) < 200"
      and "bs_get_text w html = Inr raw \<and> 200 < length (py_strip raw)"
  proof -
    have "raw \<noteq> []" using that(2) py_strip_Nil by auto
    then show ?thesis using u low [OF that(1)] that(2) by simp
  qed
  have c: "extract_static w url = None"
    if "text = None \<or> length (py_strip (the text)) < 200"
      and "bs_get_text w html = Inl e \<or> (bs_get_text w html = Inr raw \<and> length (py_strip raw) < 200)"
    using u low [OF that(1)] that(2) by auto
  from a b c show ?thesis by blast
qed

theorem extract_static_threshold_witness:
  "requests_get page_world ''https://example.com/a'' 12 = Inr ''<p>long</p>''
   \<and> trafilatura_extract page_world ''<p>long</p>'' = Inr (Some long_text)
   \<and> extract_static page_world ''https://example.com/a'' = Some long_text
   \<and> 200 \<le> length (py_strip long_text)
   \<and> requests_get page_world ''https://example.com/b'' 12 = Inr ''<p>short</p>''
   \<and> trafilatura_extract page_world ''<p>short</p>'' = Inr None
   \<and> bs_get_text page_world ''<p>short</p>'' = Inr ''short''
   \<and> length (py_strip ''short'') < 200
   \<and> extract_static page_world ''https://example.com/b'' = None"
proof -
  have a1: "requests_get page_world ''https://example.com/a'' 12 = Inr ''<p>long</p>''"
    by (simp add: page_world_def)
  have a2: "trafilatura_extract page_world ''<p>long</p>'' = Inr (Some long_text)"
    by (simp add: page_world_def)
  have a3: "extract_static page_world ''https://example.com/a'' = Some long_text"
    using a1 a2 by (simp add: extract_static_def py_strip_long_text) (simp add: long_text_def)
  have b1: "requests_get page_world ''https://example.com/b'' 12 = Inr ''<p>short</p>''"
    by (simp add: page_world_def)
  have b2: "trafilatura_extract page_world ''<p>short</p>'' = Inr None"
    by (simp add: page_world_def)
  have b3: "bs_get_text page_world ''<p>short</p>'' = Inr ''short''"
    by (simp add: page_world_def)
  have b4: "length (py_strip ''short'') < 200"
    by (simp add: py_strip_def is_space_def)
  from extract_static_threshold [OF a1 a2, of long_text "''short''" "''none''"] extract_static_threshold [OF b1 b2, of long_text "''short''" "''none''"]
       a1 a2 a3 b1 b2 b3 b4
  show ?thesis by simp
qed

text \<open>The comparison of the code is strict: a heuristic result of more than 200
  characters is returned, one of exactly 200 characters is rejected, and so is a plain text
  of exactly 200.\<close>

lemma extract_static_accepts:
  assumes "requests_get w url 12 = Inr html" and "trafilatura_extract w html = Inr (Some t)"
    and "200 < length (py_strip t)"
  shows "extract_static w url = Some t"
proof -
  have "t \<noteq> []" using assms(3) py_strip_Nil by auto
  then show ?thesis using assms by (simp add: extract_static_def)
qed

lemma extract_static_boundary:
  assumes "requests_get w url 12 = Inr html" and "trafilatura_extract w html = Inr (Some t)"
    and "length (py_strip t) = 200" and "bs_get_text w html = Inr raw" and "length (py_strip raw) \<le> 200"
  shows "extract_static w url = None"
  using assms by (simp add: extract_static_def)

lemma extract_static_long: "extract_static w url = Some t \<Longrightarrow> 200 < length (py_strip t)"
  by (auto simp: extract_static_def split: sum.splits if_splits option.splits)

lemma extract_js_long: "extract_js w url = Some t \<Longrightarrow> 200 < length (py_strip t)"
  by (auto simp: extract_js_def split: sum.splits if_splits option.splits)

lemma extract_static_truthy: "truthy (extract_static w url) \<longleftrightarrow> extract_static w url \<noteq> None"
proof (cases "extract_static w url")
  case None
  then show ?thesis by simp
next
  case (Some t)
  then have "t \<noteq> []" using extract_static_long [of w url t] py_strip_Nil by auto
  then show ?thesis using Some by simp
qed

lemma extract_js_truthy: "truthy (extract_js w url) \<longleftrightarrow> extract_js w url \<noteq> None"
proof (cases "extract_js w url")
  case None
  then show ?thesis by simp
next
  case (Some t)
  then have "t \<noteq> []" using extract_js_long [of w url t] py_strip_Nil by auto
  then show ?thesis using Some by simp
qed

lemma fetch_parts_step:
  "fetch_parts w parts (url # us) = fetch_parts w (parts @ [part_of_url w url]) us"
proof (cases "extract_static w url")
  case None
  show ?thesis
  proof (cases "extract_js w url")
    case n: None
    then show ?thesis using None by (simp add: part_of_url_def)
  next
    case (Some t)
    then have "truthy (extract_js w url)" using extract_js_truthy [of w url] by simp
    then show ?thesis using None Some by (simp add: part_of_url_def)
  qed
next
  case (Some t)
  then have "truthy (extract_static w url)" using extract_static_truthy [of w url] by simp
  then show ?thesis using Some by (simp add: part_of_url_def)
qed

lemma fetch_parts_map: "fetch_parts w parts us = parts @ map (part_of_url w) us"
proof (induction us arbitrary: parts)
  case Nil
  then show ?case by simp
next
  case (Cons url us)
  have "fetch_parts w parts (url # us) = fetch_parts w (parts @ [part_of_url w url]) us"
    by (rule fetch_parts_step)
  also have "\<dots> = (parts @ [part_of_url w url]) @ map (part_of_url w) us"
    by (rule Cons.IH)
  finally show ?case by simp
qed

text \<open>Claim C6. \<^verbatim>\<open>fetch_and_combine\<close> is a total function to strings: the extractors catch every
  exception. The loop produces exactly one part per URL, in the order of the URLs: the
  extracted text of the static or else the rendered path under a header line naming the
  URL, or else the placeholder naming the URL. The result is these parts joined by an
  empty line, stripped.\<close>

theorem fetch_and_combine_parts:
  "fetch_parts w [] us = map (part_of_url w) us
   \<and> length (fetch_parts w [] us) = length us
   \<and> fetch_and_combine w us = py_strip (py_join ''\<newline>\<newline>'' (map (part_of_url w) us))"
proof -
  have "fetch_parts w [] us = map (part_of_url w) us"
    using fetch_parts_map [of w "[]" us] by simp
  then show ?thesis by (simp add: fetch_and_combine_def)
qed

theorem fetch_and_combine_parts_witness:
  "fetch_and_combine page_world [''https://example.com/a'', ''https://example.com/b'']
     = ''--- SOURCE: https://example.com/a ---\<newline>'' @ long_text @
       ''\<newline>\<newline>\<newline>[Could not extract content from: https://example.com/b]''"
proof -
  let ?joined = "''--- SOURCE: https://example.com/a ---\<newline>'' @ long_text @
       ''\<newline>\<newline>\<newline>[Could not extract content from: https://example.com/b]''"
  have sa: "extract_static page_world ''https://example.com/a'' = Some long_text"
    by (simp add: extract_static_def page_world_def py_strip_long_text) (simp add: long_text_def)
  have a: "part_of_url page_world ''https://example.com/a''
      = ''--- SOURCE: https://example.com/a ---\<newline>'' @ long_text @ ''\<newline>''"
    by (simp add: part_of_url_def sa)
  have b: "part_of_url page_world ''https://example.com/b''
      = ''[Could not extract content from: https://example.com/b]''"
    by (simp add: part_of_url_def extract_static_def extract_js_def page_world_def
        example_world_def py_strip_def)
  have j: "py_join ''\<newline>\<newline>'' (map (part_of_url page_world) [''https://example.com/a'', ''https://example.com/b''])
      = ?joined"
    by (simp add: a b)
  have "dropWhile is_space ?joined = ?joined" by (simp add: is_space_def)
  moreover have "py_rstrip ?joined = ?joined"
    by (rule py_rstrip_last) (simp_all add: is_space_def)
  ultimately have "py_strip ?joined = ?joined" by (simp only: py_strip_def)
  with fetch_and_combine_parts [of page_world "[''https://example.com/a'', ''https://example.com/b'']"] j
  show ?thesis by simp
qed

lemma part_of_url_head: "\<exists>c rest. part_of_url w url = c # rest \<and> \<not> is_space c"
proof -
  have b: "\<not> is_space (CHR ''['')" and d: "\<not> is_space (CHR ''-'')"
    by (simp_all add: is_space_def)
  have "(\<exists>rest. part_of_url w url = CHR ''['' # rest) \<or> (\<exists>rest. part_of_url w url = CHR ''-'' # rest)"
    unfolding part_of_url_def
    by (simp split: option.split)
  then show ?thesis using b d by blast
qed

lemma fetch_and_combine_head:
  assumes "us \<noteq> []"
  shows "\<exists>c rest. fetch_and_combine w us = c # rest \<and> \<not> is_space c"
proof -
  from assms obtain url rest_urls where u: "us = url # rest_urls" by (cases us) auto
  obtain c rest where p: "part_of_url w url = c # rest" and nc: "\<not> is_space c"
    using part_of_url_head by blast
  obtain t where "py_join ''\<newline>\<newline>'' (part_of_url w url # map (part_of_url w) rest_urls) = part_of_url w url @ t"
    using py_join_head by blast
  then have "py_join ''\<newline>\<newline>'' (map (part_of_url w) us) = c # (rest @ t)"
    using u p by simp
  then have "fetch_and_combine w us = c # py_rstrip (rest @ t)"
    using nc by (simp add: fetch_and_combine_def fetch_parts_map py_strip_nonspace_head)
  then show ?thesis using nc by blast
qed

lemma fetch_and_combine_nonempty:
  assumes "us \<noteq> []"
  shows "fetch_and_combine w us \<noteq> [] \<and> py_strip (fetch_and_combine w us) \<noteq> []"
proof -
  obtain c rest where f: "fetch_and_combine w us = c # rest" and nc: "\<not> is_space c"
    using fetch_and_combine_head [OF assms] by blast
  then show ?thesis by (simp add: py_strip_nonspace_head)
qed

section \<open>The endpoints\<close>

text \<open>The three ways in which \<^verbatim>\<open>process_text_and_upsert\<close> raises.\<close>

lemma process_text_and_upsert_raises:
  "(split_text w t = Inl m \<longrightarrow> process_text_and_upsert w name t = Inl (ExternalError m))
   \<and> (split_text w t = Inr chunks
        \<and> aembed_documents w (EMBEDDING_API_BATCH_SIZE w) chunks = Inl e \<longrightarrow>
        process_text_and_upsert w name t = Inl e)
   \<and> (split_text w t = Inr chunks
        \<and> aembed_documents w (EMBEDDING_API_BATCH_SIZE w) chunks = Inr vectors
        \<and> (\<forall>records. index_upsert w name records = Inl m) \<longrightarrow>
        process_text_and_upsert w name t = Inl (ExternalError m))"
  by (simp add: process_text_and_upsert_def chunk_text_sync_def Let_def)

lemma process_no_http: "process_text_and_upsert w name t \<noteq> Inl (HTTPException c d)"
proof (cases "split_text w t")
  case (Inl e)
  then show ?thesis by (simp add: process_text_and_upsert_def chunk_text_sync_def)
next
  case (Inr chunks)
  show ?thesis
  proof (cases "aembed_documents w (EMBEDDING_API_BATCH_SIZE w) chunks")
    case l: (Inl e)
    then have "e \<noteq> HTTPException c d"
      using aembed_documents_no_http [of w "EMBEDDING_API_BATCH_SIZE w" chunks c d] by simp
    then show ?thesis using Inr l by (simp add: process_text_and_upsert_def chunk_text_sync_def)
  next
    case r: (Inr vectors)
    then show ?thesis using Inr
      by (simp add: process_text_and_upsert_def chunk_text_sync_def Let_def split: sum.split)
  qed
qed

text \<open>Claim C9. For a non-empty list of URLs the combined text is not empty, and not empty
  after stripping: it starts with the bracket of a placeholder or the dash of a header.
  So no request makes \<^verbatim>\<open>analyze\<close> raise the error 500 for failed extraction: an empty list is
  rejected before with 400, and no later step raises an \<^verbatim>\<open>HTTPException\<close>.\<close>

theorem analyze_extraction_failure_unreachable:
  "(us \<noteq> [] \<longrightarrow> fetch_and_combine w us \<noteq> [] \<and> py_strip (fetch_and_combine w us) \<noteq> [])
   \<and> fst (analyze w s request authorization)
       \<noteq> Inl (HTTPException 500 ''Failed to extract content from provided URLs.'')"
proof -
  let ?bad = "Inl (HTTPException 500 ''Failed to extract content from provided URLs.'') :: exn + AnalyzeResponse"
  have ne: "fetch_and_combine w l \<noteq> [] \<and> py_strip (fetch_and_combine w l) \<noteq> []" if "l \<noteq> []" for l
    using that by (rule fetch_and_combine_nonempty)
  have "fst (analyze w s request authorization) \<noteq> ?bad"
  proof (cases "auth_rejected w authorization \<or> urls request = []")
    case True
    then show ?thesis by (auto simp: analyze_def)
  next
    case False
    then have u: "urls request \<noteq> []" and na: "\<not> auth_rejected w authorization" by simp_all
    let ?name = "''webindex-'' @ take 8 (uuid4_hex w 0)"
    let ?combined = "fetch_and_combine w (urls request)"
    obtain r s1 where c: "create_index_if_not_exists_async w s ?name = (r, s1)"
      by (cases "create_index_if_not_exists_async w s ?name") auto
    have rn: "r \<noteq> Inl (HTTPException 500 ''Failed to extract content from provided URLs.'')"
      using ensure_index_no_http [of w s ?name] c by simp
    obtain opt calls1 where o: "optimize_text_for_rag w ?combined = (opt, calls1)"
      by (cases "optimize_text_for_rag w ?combined") auto
    obtain summ calls2 where g: "generate_summary_with_groq w opt = (summ, calls2)"
      by (cases "generate_summary_with_groq w opt") auto
    have pn: "process_text_and_upsert w ?name opt \<noteq> Inl (HTTPException 500 ''Failed to extract content from provided URLs.'')"
      by (rule process_no_http)
    show ?thesis
      using ne [OF u] na u c o g rn pn
      by (cases r; cases "process_text_and_upsert w ?name opt") (simp_all add: analyze_def)
  qed
  with ne show ?thesis by blast
qed

theorem analyze_extraction_failure_unreachable_witness:
  "[''https://example.com/b''] \<noteq> []
   \<and> fetch_and_combine page_world [''https://example.com/b''] \<noteq> []
   \<and> py_strip (fetch_and_combine page_world [''https://example.com/b'']) \<noteq> []
   \<and> fst (analyze page_world five_indexes page_b_request None)
       \<noteq> Inl (HTTPException 500 ''Failed to extract content from provided URLs.'')"
proof -
  have h: "[''https://example.com/b''] \<noteq> []" by simp
  from analyze_extraction_failure_unreachable [of "[''https://example.com/b'']" page_world five_indexes page_b_request None] h
  show ?thesis by blast
qed

text \<open>Claim C10. When the request is accepted, \<^verbatim>\<open>create_index_if_not_exists_async\<close> has
  returned normally with the store \<open>s1\<close>, and chunking, embedding or upsert then raises
  \<open>e\<close>, the request fails with \<open>e\<close> and the store it leaves is \<open>s1\<close>: the index of the
  request is in it, and where the name was new, \<open>s1\<close> is the old store (after the eviction
  of the first-listed index, if one took place) followed by the new name.\<close>

theorem analyze_leaves_index:
  assumes "\<not> auth_rejected w authorization" and "urls request \<noteq> []"
    and "create_index_if_not_exists_async w s (''webindex-'' @ take 8 (uuid4_hex w 0)) = (Inr (), s1)"
    and "process_text_and_upsert w (''webindex-'' @ take 8 (uuid4_hex w 0))
           (fst (optimize_text_for_rag w (fetch_and_combine w (urls request)))) = Inl e"
  shows "fst (analyze w s request authorization) = Inl e
       \<and> fst (snd (analyze w s request authorization)) = s1
       \<and> (''webindex-'' @ take 8 (uuid4_hex w 0)) \<in> set s1
       \<and> (''webindex-'' @ take 8 (uuid4_hex w 0) \<notin> set s \<longrightarrow>
            s1 = (if 5 \<le> length s \<and> delete_index_fails w s (hd s) = None
                  then removeAll (hd s) s else s) @ [''webindex-'' @ take 8 (uuid4_hex w 0)])
       \<and> (''webindex-'' @ take 8 (uuid4_hex w 0) \<notin> set s \<and> length s < 5 \<longrightarrow>
            length s1 = Suc (length s))"
proof -
  let ?name = "''webindex-'' @ take 8 (uuid4_hex w 0)"
  let ?combined = "fetch_and_combine w (urls request)"
  have ne: "?combined \<noteq> [] \<and> py_strip ?combined \<noteq> []"
    using assms(2) by (rule fetch_and_combine_nonempty)
  obtain opt calls1 where o: "optimize_text_for_rag w ?combined = (opt, calls1)"
    by (cases "optimize_text_for_rag w ?combined") auto
  have p: "process_text_and_upsert w ?name opt = Inl e" using assms(4) o by simp
  have an: "analyze w s request authorization = (Inl e, s1, calls1)"
    using assms(1,2,3) ne o p by (simp add: analyze_def)
  have "fst (create_index_if_not_exists_async w s ?name) = Inr ()"
    and sn: "snd (create_index_if_not_exists_async w s ?name) = s1"
    using assms(3) by simp_all
  from ensure_index_returns [OF this(1)] sn
  have r: "(?name \<in> set s \<and> s1 = s)
       \<or> (?name \<notin> set s \<and> s1 =
            (if 5 \<le> length s \<and> delete_index_fails w s (hd s) = None
             then removeAll (hd s) s else s) @ [?name])"
    by simp
  then have mem: "?name \<in> set s1" by auto
  have len: "length s1 = Suc (length s)" if "?name \<notin> set s \<and> length s < 5"
    using r that by auto
  show ?thesis using an mem r len by auto
qed

theorem analyze_leaves_index_witness:
  "\<not> auth_rejected failing_split_world None \<and> urls page_b_request \<noteq> []
   \<and> create_index_if_not_exists_async failing_split_world [''webindex-a''] (''webindex-'' @ take 8 (uuid4_hex failing_split_world 0))
        = (Inr (), [''webindex-a'', ''webindex-01234567''])
   \<and> process_text_and_upsert failing_split_world (''webindex-'' @ take 8 (uuid4_hex failing_split_world 0))
        (fst (optimize_text_for_rag failing_split_world (fetch_and_combine failing_split_world (urls page_b_request))))
        = Inl (ExternalError ''splitter error'')
   \<and> fst (analyze failing_split_world [''webindex-a''] page_b_request None) = Inl (ExternalError ''splitter error'')
   \<and> fst (snd (analyze failing_split_world [''webindex-a''] page_b_request None)) = [''webindex-a'', ''webindex-01234567'']"
proof -
  have h1: "\<not> auth_rejected failing_split_world None"
    by (simp add: auth_rejected_def failing_split_world_def page_world_def example_world_def)
  have h2: "urls page_b_request \<noteq> []" by (simp add: page_b_request_def)
  have h3: "create_index_if_not_exists_async failing_split_world [''webindex-a''] (''webindex-'' @ take 8 (uuid4_hex failing_split_world 0))
        = (Inr (), [''webindex-a'', ''webindex-01234567''])"
    by (simp add: create_index_if_not_exists_async_def list_indexes_def create_index_def
        failing_split_world_def page_world_def example_world_def)
  have h4: "process_text_and_upsert failing_split_world (''webindex-'' @ take 8 (uuid4_hex failing_split_world 0))
        (fst (optimize_text_for_rag failing_split_world (fetch_and_combine failing_split_world (urls page_b_request))))
        = Inl (ExternalError ''splitter error'')"
    by (simp add: process_text_and_upsert_def chunk_text_sync_def failing_split_world_def)
  from analyze_leaves_index [OF h1 h2 h3 h4] h1 h2 h3 h4 show ?thesis by simp
qed

text \<open>A match whose metadata is null makes the reading of the matches raise, and the
  search then returns the empty text, whatever the other matches hold.\<close>

lemma comprehension_raises:
  "Inl e \<in> set ts \<Longrightarrow> \<exists>e'. comprehension ts = Inl e'"
  by (induction ts) (auto split: sum.splits)

lemma search_index_sync_null_metadata:
  assumes "index_query w name v k = Inr res" and "matches res = Some ms"
    and "m \<in> set ms" and "metadata m = MetadataNull"
  shows "search_index_sync w name v k = []"
proof -
  have "match_text m = Inl AttributeError" using assms(4) by simp
  then have "Inl AttributeError \<in> set (map match_text ms)"
    using assms(3) by (metis image_eqI list.set_map)
  then obtain e' where "comprehension (map match_text ms) = Inl e'"
    using comprehension_raises by blast
  then show ?thesis using assms(1,2) by (simp add: search_index_sync_def)
qed

text \<open>Claim C4. For a request that passes the checks and whose question is embedded: when the
  text returned by the search is empty (more generally, empty after stripping), \<^verbatim>\<open>ask\<close>
  returns the fixed answer and makes no invocation of the model. The search returns the
  empty text when the query of the store raises and when the response holds no match.\<close>

theorem ask_without_context:
  assumes "\<not> auth_rejected w authorization" and "index_name req \<noteq> []"
    and "aembed_query w (EMBEDDING_API_BATCH_SIZE w) (question req) = Inr query_vec"
  shows "(py_strip (search_index_sync w (index_name req) query_vec 5) = [] \<longrightarrow>
            ask w req authorization
              = (Inr \<lparr>answer = ''This information is not available in the indexed documents.''\<rparr>, []))
       \<and> (index_query w (index_name req) query_vec 5 = Inl e \<longrightarrow>
            search_index_sync w (index_name req) query_vec 5 = [])
       \<and> (index_query w (index_name req) query_vec 5 = Inr res \<and>
            (matches res = None \<or> matches res = Some []) \<longrightarrow>
            search_index_sync w (index_name req) query_vec 5 = [])"
proof -
  have 1: "ask w req authorization
              = (Inr \<lparr>answer = ''This information is not available in the indexed documents.''\<rparr>, [])"
    if "py_strip (search_index_sync w (index_name req) query_vec 5) = []"
    using assms that by (simp add: ask_def)
  have 2: "search_index_sync w (index_name req) query_vec 5 = []"
    if "index_query w (index_name req) query_vec 5 = Inl e"
    using that by (simp add: search_index_sync_def)
  have 3: "search_index_sync w (index_name req) query_vec 5 = []"
    if "index_query w (index_name req) query_vec 5 = Inr res \<and>
            (matches res = None \<or> matches res = Some [])"
    using that by (auto simp: search_index_sync_def)
  from 1 2 3 show ?thesis by blast
qed

theorem ask_without_context_witness:
  "\<not> auth_rejected example_world None \<and> index_name revenue_request \<noteq> []
   \<and> aembed_query example_world (EMBEDDING_API_BATCH_SIZE example_world) (question revenue_request) = Inr [8]
   \<and> py_strip (search_index_sync example_world (index_name revenue_request) [8] 5) = []
   \<and> index_query example_world (index_name revenue_request) [8] 5 = Inr \<lparr>matches = Some []\<rparr>
   \<and> ask example_world revenue_request None
        = (Inr \<lparr>answer = ''This information is not available in the indexed documents.''\<rparr>, [])
   \<and> \<not> auth_rejected failing_query_world None
   \<and> aembed_query failing_query_world (EMBEDDING_API_BATCH_SIZE failing_query_world) (question revenue_request) = Inr [8]
   \<and> index_query failing_query_world (index_name revenue_request) [8] 5 = Inl ''unreachable''
   \<and> search_index_sync failing_query_world (index_name revenue_request) [8] 5 = []"
proof -
  have h1: "\<not> auth_rejected example_world None"
    by (simp add: auth_rejected_def example_world_def)
  have h2: "index_name revenue_request \<noteq> []" by (simp add: revenue_request_def)
  have h3: "aembed_query example_world (EMBEDDING_API_BATCH_SIZE example_world) (question revenue_request) = Inr [8]"
    by (simp add: aembed_query_def aembed_documents_def py_range_def call_embedding_api_def
        py_slice_def slice_bound_def gather_def example_world_def revenue_request_def)
  have h4: "py_strip (search_index_sync example_world (index_name revenue_request) [8] 5) = []"
    by (simp add: search_index_sync_def example_world_def py_strip_def)
  have h5: "index_query example_world (index_name revenue_request) [8] 5 = Inr \<lparr>matches = Some []\<rparr>"
    by (simp add: example_world_def)
  have g1: "\<not> auth_rejected failing_query_world None"
    by (simp add: auth_rejected_def example_world_def failing_query_world_def)
  have g3: "aembed_query failing_query_world (EMBEDDING_API_BATCH_SIZE failing_query_world) (question revenue_request) = Inr [8]"
    by (simp add: aembed_query_def aembed_documents_def py_range_def call_embedding_api_def
        py_slice_def slice_bound_def gather_def example_world_def failing_query_world_def revenue_request_def)
  have g5: "index_query failing_query_world (index_name revenue_request) [8] 5 = Inl ''unreachable''"
    by (simp add: failing_query_world_def)
  from ask_without_context [OF h1 h2 h3, of "''unreachable''" "\<lparr>matches = Some []\<rparr>"]
       ask_without_context [OF g1 h2 g3, of "''unreachable''" "\<lparr>matches = Some []\<rparr>"]
       h1 h2 h3 h4 h5 g1 g3 g5
  show ?thesis by simp
qed

section \<open>The intent classifiers\<close>

lemma first_word_blank:
  assumes "dropWhile is_space c = []"
  shows "first_word (Some c) = Inl IndexError"
proof -
  have "py_strip c = []" using assms by (rule py_strip_blank)
  then have "py_split (py_lower (py_strip c)) = []"
    by (simp add: py_lower_def py_split_def)
  then show ?thesis by (simp add: first_word_def)
qed

lemma first_word_token:
  assumes "dropWhile is_space c \<noteq> []"
  shows "first_word (Some c) = Inr (first_token_lowered c)"
proof -
  from assms obtain x xs where d: "dropWhile is_space c = x # xs"
    by (cases "dropWhile is_space c") auto
  have nx: "\<not> is_space x" using d by (rule dropWhile_space_Cons)
  have st: "py_strip c = x # py_rstrip xs" using d by (rule py_strip_Cons)
  let ?e = "py_lower (py_strip c)"
  have e: "?e = lower_char x # map lower_char (py_rstrip xs)"
    by (simp add: st py_lower_def)
  have nsp: "((\<lambda>ch. \<not> is_space ch) \<circ> lower_char) = (\<lambda>ch. \<not> is_space ch)"
    by (rule ext) (simp add: is_space_lower_char)
  have "dropWhile is_space ?e = lower_char x # map lower_char (py_rstrip xs)"
    using nx by (simp add: e is_space_lower_char)
  from py_split_first [OF this] obtain rest where
    sp: "py_split ?e = takeWhile (\<lambda>ch. \<not> is_space ch) (lower_char x # map lower_char (py_rstrip xs)) # rest"
    by blast
  have "takeWhile (\<lambda>ch. \<not> is_space ch) (lower_char x # map lower_char (py_rstrip xs))
      = map lower_char (takeWhile (\<lambda>ch. \<not> is_space ch) (x # py_rstrip xs))"
    using nx by (simp add: is_space_lower_char takeWhile_map nsp)
  also have "\<dots> = map lower_char (takeWhile (\<lambda>ch. \<not> is_space ch) (x # xs))"
    using nx by (simp add: py_rstrip_takeWhile)
  also have "\<dots> = first_token_lowered c"
    unfolding first_token_lowered_def by (simp only: d)
  finally have "py_split ?e = first_token_lowered c # rest" using sp by simp
  then show ?thesis by (simp add: first_word_def)
qed

text \<open>Claim C8. With a key configured, the label of both classifiers is the first
  whitespace-delimited token of the response, lower-cased; when the call raises, when the
  response has no content and when the content holds no token (it is empty or all
  whitespace), the label is \<^verbatim>\<open>excel\<close> in the export flow and \<^verbatim>\<open>viz\<close> in the visualization
  flow.\<close>

theorem intent_label:
  assumes "GROQ_API_KEYS w \<noteq> []"
  shows "create_excel_intent w query hist =
           Inr (case llm_ainvoke w ''llama-3.3-70b-versatile'' (random_choice w (GROQ_API_KEYS w))
                       (excel_classify_prompt query hist) of
                  Inl e \<Rightarrow> ''excel''
                | Inr None \<Rightarrow> ''excel''
                | Inr (Some c) \<Rightarrow>
                    if dropWhile is_space c = [] then ''excel'' else first_token_lowered c)
       \<and> create_visuals_intent w query hist =
           Inr (case llm_ainvoke w ''llama-3.3-70b-versatile'' (random_choice w (GROQ_API_KEYS w))
                       (viz_classify_prompt query hist) of
                  Inl e \<Rightarrow> ''viz''
                | Inr None \<Rightarrow> ''viz''
                | Inr (Some c) \<Rightarrow>
                    if dropWhile is_space c = [] then ''viz'' else first_token_lowered c)"
proof -
  have fw: "first_word (Some c) =
     (if dropWhile is_space c = [] then Inl IndexError else Inr (first_token_lowered c))" for c
    using first_word_blank [of c] first_word_token [of c] by (cases "dropWhile is_space c = []") simp_all
  have fn: "first_word None = Inl AttributeError"
    by (simp add: first_word_def)
  show ?thesis using assms
    by (simp add: create_excel_intent_def create_visuals_intent_def fw fn
        split: sum.split option.split del: dropWhile_eq_Nil_conv)
qed

theorem intent_label_witness:
  "GROQ_API_KEYS answering_world \<noteq> []
   \<and> create_excel_intent answering_world ''make a table'' None = Inr ''chat''
   \<and> create_visuals_intent answering_world ''make a table'' None = Inr ''chat''
   \<and> GROQ_API_KEYS example_world \<noteq> []
   \<and> create_excel_intent example_world ''make a table'' None = Inr ''excel''
   \<and> create_visuals_intent example_world ''make a table'' None = Inr ''viz''"
proof -
  have h: "GROQ_API_KEYS answering_world \<noteq> []"
    by (simp add: answering_world_def example_world_def)
  have g: "GROQ_API_KEYS example_world \<noteq> []"
    by (simp add: example_world_def)
  have t: "first_token_lowered '' Chat please'' = ''chat''"
    by (simp add: first_token_lowered_def is_space_def lower_char_def char_of_def bit_iff_odd)
  have d: "dropWhile is_space '' Chat please'' \<noteq> []"
    by (simp add: is_space_def)
  have l: "llm_ainvoke answering_world = (\<lambda>model key prompt. Inr (Some '' Chat please''))"
    by (simp add: answering_world_def)
  have m: "llm_ainvoke example_world = (\<lambda>model key prompt. Inl ''rate limit'')"
    by (simp add: example_world_def)
  from intent_label [OF h, of "''make a table''" None] intent_label [OF g, of "''make a table''" None] h g t d l m
  show ?thesis by (simp del: dropWhile_eq_Nil_conv)
qed

end
